theory Spec2Isabelle
  imports Main
begin

text \<open>
  A model of the wedding RSVP application: the venue cache, the public RSVP routes
  (\<^verbatim>\<open>search_guest\<close>, \<^verbatim>\<open>get_guest_group\<close>, \<^verbatim>\<open>confirm_rsvp\<close>), the admin routes
  \<^verbatim>\<open>edit_guest\<close>, \<^verbatim>\<open>delete_group\<close>, \<^verbatim>\<open>update_venue\<close> and \<^verbatim>\<open>send_whatsapp\<close> of
  routes.py, and the message templates and the dispatcher of send_whatsapp.py. A route
  is a function of the request (form, session, path argument) and of the process state;
  it returns its response, the messages it flashes and the new state. An exception is a
  value, caught where the route catches it. What the routes leave to Python's library,
  to SQLAlchemy and to the messaging provider is modelled from their documented
  behaviour, or taken as a parameter where it depends on the deployment.
\<close>

section \<open>Python values used by the handlers\<close>

subsection \<open>Strings\<close>

text \<open>
  A Python \<^verbatim>\<open>str\<close> is modelled as the list of its Unicode code points, so that
  \<^verbatim>\<open>len\<close> counts what Python counts. \<open>py\<close> turns an ASCII literal of the theory
  into such a string. A \<^verbatim>\<open>str\<close> is falsy exactly when it is empty.
\<close>

type_synonym pystr = "nat list"

definition py :: "string \<Rightarrow> pystr" where
  "py s = map of_char s"

definition in_ranges :: "nat \<Rightarrow> (nat \<times> nat) list \<Rightarrow> bool" where
  "in_ranges c rs = list_ex (\<lambda>r. fst r \<le> c \<and> c \<le> snd r) rs"

text \<open>
  The code points for which \<^verbatim>\<open>str.isspace\<close> holds (Unicode 14, the table of
  CPython 3.11); \<^verbatim>\<open>str.strip()\<close> and the regular expression class \<^verbatim>\<open>\s\<close> use it.
\<close>

definition whitespace_ranges :: "(nat \<times> nat) list" where
  "whitespace_ranges =
    [(9, 13), (28, 32), (133, 133), (160, 160), (5760, 5760), (8192, 8202),
     (8232, 8233), (8239, 8239), (8287, 8287), (12288, 12288)]"

definition isspace :: "nat \<Rightarrow> bool" where
  "isspace c = in_ranges c whitespace_ranges"

text \<open>\<^verbatim>\<open>s.strip()\<close>: leading and trailing whitespace removed.\<close>

definition strip :: "pystr \<Rightarrow> pystr" where
  "strip s = rev (dropWhile isspace (rev (dropWhile isspace s)))"

text \<open>
  The decimal digits (category Nd): every range is a run of blocks of ten code points
  for the digits 0 to 9. \<^verbatim>\<open>int()\<close> and the regular expression class \<^verbatim>\<open>\d\<close> accept
  exactly these.
\<close>

definition decimal_ranges :: "(nat \<times> nat) list" where
  "decimal_ranges =
    [(48, 57), (1632, 1641), (1776, 1785), (1984, 1993), (2406, 2415), (2534, 2543),
     (2662, 2671), (2790, 2799), (2918, 2927), (3046, 3055), (3174, 3183), (3302, 3311),
     (3430, 3439), (3558, 3567), (3664, 3673), (3792, 3801), (3872, 3881), (4160, 4169),
     (4240, 4249), (6112, 6121), (6160, 6169), (6470, 6479), (6608, 6617), (6784, 6793),
     (6800, 6809), (6992, 7001), (7088, 7097), (7232, 7241), (7248, 7257), (42528, 42537),
     (43216, 43225), (43264, 43273), (43472, 43481), (43504, 43513), (43600, 43609),
     (44016, 44025), (65296, 65305), (66720, 66729), (68912, 68921), (69734, 69743),
     (69872, 69881), (69942, 69951), (70096, 70105), (70384, 70393), (70736, 70745),
     (70864, 70873), (71248, 71257), (71360, 71369), (71472, 71481), (71904, 71913),
     (72016, 72025), (72784, 72793), (73040, 73049), (73120, 73129), (92768, 92777),
     (92864, 92873), (93008, 93017), (120782, 120831), (123200, 123209), (123632, 123641),
     (125264, 125273), (130032, 130041)]"

definition decimal_value :: "nat \<Rightarrow> nat option" where
  "decimal_value c =
     (case find (\<lambda>r. fst r \<le> c \<and> c \<le> snd r) decimal_ranges of
        None \<Rightarrow> None
      | Some r \<Rightarrow> Some ((c - fst r) mod 10))"

text \<open>
  The code points for which \<^verbatim>\<open>str.isdigit\<close> holds: the decimal digits and further
  digit characters such as the superscripts, which \<^verbatim>\<open>int()\<close> rejects.
\<close>

definition digit_ranges :: "(nat \<times> nat) list" where
  "digit_ranges =
    [(48, 57), (178, 179), (185, 185), (1632, 1641), (1776, 1785), (1984, 1993),
     (2406, 2415), (2534, 2543), (2662, 2671), (2790, 2799), (2918, 2927), (3046, 3055),
     (3174, 3183), (3302, 3311), (3430, 3439), (3558, 3567), (3664, 3673), (3792, 3801),
     (3872, 3881), (4160, 4169), (4240, 4249), (4969, 4977), (6112, 6121), (6160, 6169),
     (6470, 6479), (6608, 6618), (6784, 6793), (6800, 6809), (6992, 7001), (7088, 7097),
     (7232, 7241), (7248, 7257), (8304, 8304), (8308, 8313), (8320, 8329), (9312, 9320),
     (9332, 9340), (9352, 9360), (9450, 9450), (9461, 9469), (9471, 9471), (10102, 10110),
     (10112, 10120), (10122, 10130), (42528, 42537), (43216, 43225), (43264, 43273),
     (43472, 43481), (43504, 43513), (43600, 43609), (44016, 44025), (65296, 65305),
     (66720, 66729), (68160, 68163), (68912, 68921), (69216, 69224), (69714, 69722),
     (69734, 69743), (69872, 69881), (69942, 69951), (70096, 70105), (70384, 70393),
     (70736, 70745), (70864, 70873), (71248, 71257), (71360, 71369), (71472, 71481),
     (71904, 71913), (72016, 72025), (72784, 72793), (73040, 73049), (73120, 73129),
     (92768, 92777), (92864, 92873), (93008, 93017), (120782, 120831), (123200, 123209),
     (123632, 123641), (125264, 125273), (127232, 127242), (130032, 130041)]"

text \<open>\<^verbatim>\<open>s.isdigit()\<close>: non-empty and every character a digit.\<close>

definition isdigit :: "pystr \<Rightarrow> bool" where
  "isdigit s = (s \<noteq> [] \<and> list_all (\<lambda>c. in_ranges c digit_ranges) s)"

text \<open>
  \<^verbatim>\<open>int(s)\<close> in base ten, \<open>None\<close> standing for the \<^verbatim>\<open>ValueError\<close>. Whitespace around
  the number is dropped (for \<^verbatim>\<open>int\<close> the separators U+001C to U+001F do not count as
  whitespace), a sign may precede the digits, single underscores may separate digits,
  and more than 4300 digits are refused.
\<close>

definition int_space :: "nat \<Rightarrow> bool" where
  "int_space c = (isspace c \<and> \<not> (28 \<le> c \<and> c \<le> 31))"

fun parse_digits :: "pystr \<Rightarrow> int \<Rightarrow> int option" where
  "parse_digits [] acc = Some acc"
| "parse_digits [c] acc =
     (case decimal_value c of None \<Rightarrow> None | Some v \<Rightarrow> Some (acc * 10 + int v))"
| "parse_digits (c # d # ds) acc =
     (if c = 95 then
        (case decimal_value d of
           None \<Rightarrow> None
         | Some v \<Rightarrow> parse_digits ds (acc * 10 + int v))
      else
        (case decimal_value c of
           None \<Rightarrow> None
         | Some v \<Rightarrow> parse_digits (d # ds) (acc * 10 + int v)))"

definition parse_unsigned :: "pystr \<Rightarrow> int option" where
  "parse_unsigned s =
     (case s of
        [] \<Rightarrow> None
      | c # cs \<Rightarrow>
          (case decimal_value c of
             None \<Rightarrow> None
           | Some v \<Rightarrow>
               if 4300 < length (filter (\<lambda>x. x \<noteq> 95) s) then None
               else parse_digits cs (int v)))"

definition py_int :: "pystr \<Rightarrow> int option" where
  "py_int s =
     (let t = rev (dropWhile int_space (rev (dropWhile int_space s)))
      in case t of
           [] \<Rightarrow> None
         | c # cs \<Rightarrow>
             if c = 45 then map_option uminus (parse_unsigned cs)
             else if c = 43 then parse_unsigned cs
             else parse_unsigned t)"

text \<open>\<^verbatim>\<open>str(n)\<close> for a non-negative integer.\<close>

function str_nat :: "nat \<Rightarrow> pystr" where
  "str_nat n = (if n < 10 then [48 + n] else str_nat (n div 10) @ [48 + n mod 10])"
  by pat_completeness auto
termination
  by (relation "measure id") auto

definition str_int :: "int \<Rightarrow> pystr" where
  "str_int i = (if i < 0 then 45 # str_nat (nat (- i)) else str_nat (nat i))"

subsection \<open>Request forms and the session\<close>

text \<open>
  \<^verbatim>\<open>request.form\<close> is a multi-dictionary: the submitted (key, value) pairs in order.
  \<^verbatim>\<open>getlist\<close> returns every value of a key, \<^verbatim>\<open>get\<close> the first one or the default.
\<close>

type_synonym form = "(pystr \<times> pystr) list"

definition form_getlist :: "form \<Rightarrow> pystr \<Rightarrow> pystr list" where
  "form_getlist f k = map snd (filter (\<lambda>kv. fst kv = k) f)"

definition form_get :: "form \<Rightarrow> pystr \<Rightarrow> pystr option" where
  "form_get f k = map_of f k"

definition form_get_default :: "form \<Rightarrow> pystr \<Rightarrow> pystr \<Rightarrow> pystr" where
  "form_get_default f k d = (case map_of f k of None \<Rightarrow> d | Some v \<Rightarrow> v)"

text \<open>\<^verbatim>\<open>x or None\<close> for a string \<open>x\<close>.\<close>

definition or_none :: "pystr \<Rightarrow> pystr option" where
  "or_none s = (if s = [] then None else Some s)"

text \<open>Of the Flask session only the keys matter to the modelled code.\<close>

type_synonym session = "pystr list"

subsection \<open>Exceptions, flashed messages, responses\<close>

datatype exn =
    NotFound
  | ValueError
  | TypeError
  | KeyError pystr
  | IndexError
  | StaleDataError
  | StoreError
  | NotModelled

datatype category = Success | Danger | Warning | Info

text \<open>
  The flashed messages, one constructor for each message text of the modelled routes,
  with the values interpolated into it.
\<close>

datatype message =
    AccessDenied
  | NoGuestSelected
  | RsvpRegistered nat
  | NothingProcessed
  | RsvpError
  | GuestNameRequired
  | GuestUpdated pystr
  | GuestEditError exn
  | GroupHasGuests pystr nat
  | GroupRemoved pystr
  | GroupRemoveError exn
  | VenueNameRequired
  | BadDateOrTime
  | BadDate
  | VenueUpdated
  | VenueUpdateError exn
  | NoGuestSelectedForSend
  | GuestsWithoutPhone "pystr list"
  | NoSelectedGuestHasPhone
  | MessagesSent int
  | SendErrors int
  | SendErrorDetail pystr
  | GeneralSendError exn

type_synonym flash = "category \<times> message"

datatype endpoint = Rsvp | AdminLogin | AdminGuests | AdminGroups | AdminVenue | AdminWhatsapp

text \<open>A JSON route answers with a JSON body, with the body and status 500, or aborts with 404.\<close>

datatype 'a json_response = Json200 'a | Json500 | Abort404

subsection \<open>Dates and times\<close>

text \<open>
  A value of \<^verbatim>\<open>datetime.utcnow()\<close> is a point in time, counted in microseconds;
  subtracting two of them gives a \<^verbatim>\<open>timedelta\<close>, which Python normalises to days,
  seconds (0 to 86399) and microseconds (0 to 999999). Its attribute \<^verbatim>\<open>.seconds\<close> is
  the seconds component only.
\<close>

type_synonym timestamp = int

definition timedelta_seconds :: "int \<Rightarrow> int" where
  "timedelta_seconds delta = (delta div 1000000) mod 86400"

text \<open>A parsed event date and time keeps its calendar fields.\<close>

record pydate =
  year :: int
  month :: int
  day :: int

record pytime =
  hour :: int
  minute :: int

record pydatetime =
  date_part :: pydate
  time_part :: pytime

subsection \<open>\<^verbatim>\<open>datetime.strptime\<close> for the two formats of \<^verbatim>\<open>update_venue\<close>\<close>

text \<open>
  \<^verbatim>\<open>strptime\<close> compiles the format into a regular expression, matches it at the start
  of the text with backtracking, and refuses text left over after the match. The
  directives used are \<^verbatim>\<open>%Y\<close> = \<^verbatim>\<open>\d\d\d\d\<close>, \<^verbatim>\<open>%m\<close> = \<^verbatim>\<open>1[0-2]|0[1-9]|[1-9]\<close>,
  \<^verbatim>\<open>%d\<close> = \<^verbatim>\<open>3[0-1]|[1-2]\d|0[1-9]|[1-9]| [1-9]\<close>, \<^verbatim>\<open>%H\<close> = \<^verbatim>\<open>2[0-3]|[0-1]\d|\d\<close>,
  \<^verbatim>\<open>%M\<close> = \<^verbatim>\<open>[0-5]\d|\d\<close>, and a blank of the format is \<^verbatim>\<open>\s+\<close>. An alternative is a
  list of character classes; the alternatives of a directive are tried in order, and a
  later one is tried when the rest of the expression fails after an earlier one.
\<close>

definition is_char :: "nat \<Rightarrow> nat \<Rightarrow> bool" where
  "is_char k c = (c = k)"

definition in_range :: "nat \<Rightarrow> nat \<Rightarrow> nat \<Rightarrow> bool" where
  "in_range lo hi c = (lo \<le> c \<and> c \<le> hi)"

definition is_decimal :: "nat \<Rightarrow> bool" where
  "is_decimal c = (decimal_value c \<noteq> None)"

fun match_classes :: "(nat \<Rightarrow> bool) list \<Rightarrow> pystr \<Rightarrow> (pystr \<times> pystr) option" where
  "match_classes [] s = Some ([], s)"
| "match_classes (p # ps) [] = None"
| "match_classes (p # ps) (c # cs) =
     (if p c then
        (case match_classes ps cs of
           None \<Rightarrow> None
         | Some (m, r) \<Rightarrow> Some (c # m, r))
      else None)"

fun first_alt ::
  "(nat \<Rightarrow> bool) list list \<Rightarrow> pystr \<Rightarrow> (pystr \<Rightarrow> pystr \<Rightarrow> 'a option) \<Rightarrow> 'a option" where
  "first_alt [] s k = None"
| "first_alt (a # alts) s k =
     (case match_classes a s of
        None \<Rightarrow> first_alt alts s k
      | Some (m, r) \<Rightarrow>
          (case k m r of
             None \<Rightarrow> first_alt alts s k
           | Some x \<Rightarrow> Some x))"

definition lit :: "nat \<Rightarrow> pystr \<Rightarrow> (pystr \<Rightarrow> 'a option) \<Rightarrow> 'a option" where
  "lit c s k = (case s of [] \<Rightarrow> None | x # r \<Rightarrow> if x = c then k r else None)"

fun spaces_star :: "pystr \<Rightarrow> (pystr \<Rightarrow> 'a option) \<Rightarrow> 'a option" where
  "spaces_star [] k = k []"
| "spaces_star (c # cs) k =
     (if isspace c then
        (case spaces_star cs k of
           None \<Rightarrow> k (c # cs)
         | Some x \<Rightarrow> Some x)
      else k (c # cs))"

definition spaces_plus :: "pystr \<Rightarrow> (pystr \<Rightarrow> 'a option) \<Rightarrow> 'a option" where
  "spaces_plus s k =
     (case s of [] \<Rightarrow> None | c # cs \<Rightarrow> if isspace c then spaces_star cs k else None)"

definition directive_Y :: "(nat \<Rightarrow> bool) list list" where
  "directive_Y = [[is_decimal, is_decimal, is_decimal, is_decimal]]"

definition directive_m :: "(nat \<Rightarrow> bool) list list" where
  "directive_m = [[is_char 49, in_range 48 50], [is_char 48, in_range 49 57], [in_range 49 57]]"

definition directive_d :: "(nat \<Rightarrow> bool) list list" where
  "directive_d =
     [[is_char 51, in_range 48 49], [in_range 49 50, is_decimal], [is_char 48, in_range 49 57],
      [in_range 49 57], [is_char 32, in_range 49 57]]"

definition directive_H :: "(nat \<Rightarrow> bool) list list" where
  "directive_H = [[is_char 50, in_range 48 51], [in_range 48 49, is_decimal], [is_decimal]]"

definition directive_M :: "(nat \<Rightarrow> bool) list list" where
  "directive_M = [[in_range 48 53, is_decimal], [is_decimal]]"

text \<open>The match of \<^verbatim>\<open>%Y-%m-%d\<close>: the three groups and the text after the match.\<close>

definition match_date :: "pystr \<Rightarrow> (pystr \<times> pystr \<times> pystr \<times> pystr) option" where
  "match_date s =
     first_alt directive_Y s (\<lambda>y r1.
       lit 45 r1 (\<lambda>r2.
         first_alt directive_m r2 (\<lambda>mo r3.
           lit 45 r3 (\<lambda>r4.
             first_alt directive_d r4 (\<lambda>d r5. Some (y, mo, d, r5))))))"

text \<open>The match of \<^verbatim>\<open>%Y-%m-%d %H:%M\<close>.\<close>

definition match_datetime ::
  "pystr \<Rightarrow> (pystr \<times> pystr \<times> pystr \<times> pystr \<times> pystr \<times> pystr) option" where
  "match_datetime s =
     first_alt directive_Y s (\<lambda>y r1.
       lit 45 r1 (\<lambda>r2.
         first_alt directive_m r2 (\<lambda>mo r3.
           lit 45 r3 (\<lambda>r4.
             first_alt directive_d r4 (\<lambda>d r5.
               spaces_plus r5 (\<lambda>r6.
                 first_alt directive_H r6 (\<lambda>h r7.
                   lit 58 r7 (\<lambda>r8.
                     first_alt directive_M r8 (\<lambda>mi r9. Some (y, mo, d, h, mi, r9))))))))))"

definition is_leap :: "int \<Rightarrow> bool" where
  "is_leap y = (y mod 4 = 0 \<and> (y mod 100 \<noteq> 0 \<or> y mod 400 = 0))"

definition days_in_month :: "int \<Rightarrow> int \<Rightarrow> int" where
  "days_in_month y m =
     (if m = 2 then (if is_leap y then 29 else 28)
      else if m = 4 \<or> m = 6 \<or> m = 9 \<or> m = 11 then 30
      else 31)"

text \<open>The constructor \<^verbatim>\<open>date(year, month, day)\<close>, which checks the calendar.\<close>

definition make_date :: "int \<Rightarrow> int \<Rightarrow> int \<Rightarrow> exn + pydate" where
  "make_date y m d =
     (if 1 \<le> y \<and> y \<le> 9999 \<and> 1 \<le> m \<and> m \<le> 12 \<and> 1 \<le> d \<and> d \<le> days_in_month y m
      then Inr \<lparr>year = y, month = m, day = d\<rparr>
      else Inl ValueError)"

text \<open>\<^verbatim>\<open>datetime.strptime(s, "%Y-%m-%d").date()\<close>\<close>

definition strptime_date :: "pystr \<Rightarrow> exn + pydate" where
  "strptime_date s =
     (case match_date s of
        None \<Rightarrow> Inl ValueError
      | Some (y, mo, d, rest) \<Rightarrow>
          if rest \<noteq> [] then Inl ValueError
          else
            (case (py_int y, py_int mo, py_int d) of
               (Some yv, Some mv, Some dv) \<Rightarrow> make_date yv mv dv
             | _ \<Rightarrow> Inl ValueError))"

text \<open>\<^verbatim>\<open>datetime.strptime(s, "%Y-%m-%d %H:%M")\<close>\<close>

definition strptime_datetime :: "pystr \<Rightarrow> exn + pydatetime" where
  "strptime_datetime s =
     (case match_datetime s of
        None \<Rightarrow> Inl ValueError
      | Some (y, mo, d, h, mi, rest) \<Rightarrow>
          if rest \<noteq> [] then Inl ValueError
          else
            (case (py_int y, py_int mo, py_int d, py_int h, py_int mi) of
               (Some yv, Some mv, Some dv, Some hv, Some miv) \<Rightarrow>
                 (case make_date yv mv dv of
                    Inl e \<Rightarrow> Inl e
                  | Inr dt \<Rightarrow> Inr \<lparr>date_part = dt, time_part = \<lparr>hour = hv, minute = miv\<rparr>\<rparr>)
             | _ \<Rightarrow> Inl ValueError))"

section \<open>Data model (models.py)\<close>

record guest =
  guest_id :: int
  guest_name :: pystr
  guest_phone :: "pystr option"
  guest_rsvp_status :: "pystr option"
  guest_group_id :: "int option"
  guest_created_at :: "timestamp option"

record guest_group =
  group_id :: int
  group_name :: pystr
  group_description :: "pystr option"
  group_created_at :: "timestamp option"

record venue_info =
  venue_id :: int
  venue_name :: pystr
  venue_address :: "pystr option"
  venue_map_link :: "pystr option"
  venue_description :: "pystr option"
  venue_date :: "pydate option"
  venue_time :: "pytime option"
  venue_event_datetime :: "pydatetime option"
  venue_created_at :: "timestamp option"
  venue_updated_at :: "timestamp option"

text \<open>The tables the modelled routes touch, each in the order the store returns its rows.\<close>

record database =
  guests :: "guest list"
  groups :: "guest_group list"
  venues :: "venue_info list"

text \<open>
  What the routes leave to the database behind SQLAlchemy, taken as a parameter:
  whether a commit of the given contents is accepted (column sizes, foreign keys and
  the connection are the store's business), whether the dialect reports the number of
  rows matched by a batch of statements, and the escape character of \<^verbatim>\<open>LIKE\<close>
  (a backslash on PostgreSQL, none on SQLite).
\<close>

record backend =
  commit_accepts :: "database \<Rightarrow> bool"
  sane_rowcount :: bool
  sane_multi_rowcount :: bool
  like_escape :: "nat option"

text \<open>\<^verbatim>\<open>db.session.commit()\<close> of pending changes that lead to the contents \<open>d\<close>.\<close>

definition commit :: "backend \<Rightarrow> database \<Rightarrow> exn + database" where
  "commit b d = (if commit_accepts b d then Inr d else Inl StoreError)"

text \<open>\<^verbatim>\<open>Model.query.first()\<close>: the first row, or \<^verbatim>\<open>None\<close>.\<close>

definition query_first :: "'a list \<Rightarrow> 'a option" where
  "query_first rows = (case rows of [] \<Rightarrow> None | r # _ \<Rightarrow> Some r)"

text \<open>\<^verbatim>\<open>first_or_404\<close> and \<^verbatim>\<open>get_or_404\<close> abort with the exception \<^verbatim>\<open>NotFound\<close>.\<close>

definition or_404 :: "'a option \<Rightarrow> exn + 'a" where
  "or_404 r = (case r of None \<Rightarrow> Inl NotFound | Some x \<Rightarrow> Inr x)"

text \<open>Truth value of an optional integer and of an optional string.\<close>

definition truthy_int :: "int option \<Rightarrow> bool" where
  "truthy_int x = (case x of None \<Rightarrow> False | Some n \<Rightarrow> n \<noteq> 0)"

definition truthy_str :: "pystr option \<Rightarrow> bool" where
  "truthy_str x = (case x of None \<Rightarrow> False | Some s \<Rightarrow> s \<noteq> [])"

text \<open>The relationship \<^verbatim>\<open>Guest.group\<close>: the group row the guest refers to, if there is one.\<close>

definition guest_group_of :: "database \<Rightarrow> guest \<Rightarrow> guest_group option" where
  "guest_group_of d g =
     (case guest_group_id g of
        None \<Rightarrow> None
      | Some gid \<Rightarrow> find (\<lambda>gr. group_id gr = gid) (groups d))"

subsection \<open>\<^verbatim>\<open>ILIKE\<close>\<close>

text \<open>
  \<^verbatim>\<open>LIKE\<close> on strings already folded to one case: \<^verbatim>\<open>%\<close> (37) matches any run of
  characters, \<^verbatim>\<open>_\<close> (95) any one character, the escape character takes the next
  pattern character literally.
\<close>

fun like_match :: "nat option \<Rightarrow> pystr \<Rightarrow> pystr \<Rightarrow> bool" where
  "like_match esc [] s = (s = [])"
| "like_match esc (p # ps) [] =
     (if Some p = esc then False
      else if p = 37 then like_match esc ps []
      else False)"
| "like_match esc (p # ps) (c # cs) =
     (if Some p = esc then
        (case ps of [] \<Rightarrow> False | q # qs \<Rightarrow> c = q \<and> like_match esc qs cs)
      else if p = 37 then like_match esc ps (c # cs) \<or> like_match esc (p # ps) cs
      else if p = 95 then like_match esc ps cs
      else c = p \<and> like_match esc ps cs)"

text \<open>
  The case folding of \<^verbatim>\<open>ILIKE\<close> (or of \<^verbatim>\<open>lower(..) LIKE lower(..)\<close>) on the ASCII
  letters; what the store does with other letters depends on its collation.
\<close>

definition sql_lower :: "nat \<Rightarrow> nat" where
  "sql_lower c = (if 65 \<le> c \<and> c \<le> 90 then c + 32 else c)"

definition ilike :: "backend \<Rightarrow> pystr \<Rightarrow> pystr \<Rightarrow> bool" where
  "ilike b s pattern = like_match (like_escape b) (map sql_lower pattern) (map sql_lower s)"

section \<open>Process state of routes.py\<close>

text \<open>
  The module globals \<^verbatim>\<open>_venue_cache\<close> (a dict, empty or holding the key
  \<^verbatim>\<open>'venue'\<close>) and \<^verbatim>\<open>_venue_cache_time\<close> (\<^verbatim>\<open>None\<close> or a datetime), the store,
  and a counter of the \<^verbatim>\<open>SELECT\<close> queries issued to the store, which instruments the
  reads.
\<close>

record app_state =
  store :: database
  venue_cache :: "(pystr \<times> venue_info option) list"
  venue_cache_time :: "timestamp option"
  query_count :: nat

definition count_query :: "app_state \<Rightarrow> app_state" where
  "count_query st = st\<lparr>query_count := Suc (query_count st)\<rparr>"

text \<open>\<^verbatim>\<open>d.get(k)\<close> on a dict whose values may be \<^verbatim>\<open>None\<close>.\<close>

definition dict_get :: "(pystr \<times> 'a option) list \<Rightarrow> pystr \<Rightarrow> 'a option" where
  "dict_get d k = (case map_of d k of None \<Rightarrow> None | Some v \<Rightarrow> v)"

subsection \<open>The venue cache\<close>

text \<open>
  \<^verbatim>\<open>get_cached_venue\<close>, with \<open>now\<close> the value of \<^verbatim>\<open>datetime.utcnow()\<close>. The test is
  \<^verbatim>\<open>_venue_cache_time and (now - _venue_cache_time).seconds < 300\<close>; a datetime is
  always truthy.
\<close>

definition get_cached_venue :: "timestamp \<Rightarrow> app_state \<Rightarrow> venue_info option \<times> app_state" where
  "get_cached_venue now st =
     (if (case venue_cache_time st of
            None \<Rightarrow> False
          | Some t \<Rightarrow> timedelta_seconds (now - t) < 300)
      then (dict_get (venue_cache st) (py ''venue''), st)
      else
        let venue = query_first (venues (store st))
        in (venue, st\<lparr>venue_cache := [(py ''venue'', venue)],
                      venue_cache_time := Some now,
                      query_count := Suc (query_count st)\<rparr>))"

text \<open>The invalidation that \<^verbatim>\<open>update_venue\<close> performs after its commit.\<close>

definition invalidate_venue_cache :: "app_state \<Rightarrow> app_state" where
  "invalidate_venue_cache st = st\<lparr>venue_cache := [], venue_cache_time := None\<rparr>"

subsection \<open>The admin gate\<close>

text \<open>
  The decorator \<^verbatim>\<open>admin_required_optimized\<close>: without \<^verbatim>\<open>'admin_id'\<close> in the session
  the route is not run. A modelled admin route returns the redirect target, the
  flashed messages and the new state.
\<close>

definition admin_required_optimized ::
  "session \<Rightarrow> app_state \<Rightarrow> (endpoint \<times> flash list \<times> app_state) \<Rightarrow>
     endpoint \<times> flash list \<times> app_state" where
  "admin_required_optimized sess st run =
     (if py ''admin_id'' \<in> set sess then run
      else (AdminLogin, [(Danger, AccessDenied)], st))"

section \<open>Public routes\<close>

subsection \<open>\<^verbatim>\<open>search_guest\<close>\<close>

record search_hit =
  hit_id :: int
  hit_name :: pystr
  hit_rsvp_status :: "pystr option"
  hit_group_name :: "pystr option"

definition search_hit_of :: "database \<Rightarrow> guest \<Rightarrow> search_hit" where
  "search_hit_of d g =
     \<lparr>hit_id = guest_id g,
      hit_name = guest_name g,
      hit_rsvp_status = guest_rsvp_status g,
      hit_group_name = map_option group_name (guest_group_of d g)\<rparr>"

definition search_guest :: "backend \<Rightarrow> form \<Rightarrow> app_state \<Rightarrow> search_hit list \<times> app_state" where
  "search_guest b f st =
     (let name = strip (form_get_default f (py ''name'') [])
      in if name = [] \<or> length name < 3 then ([], st)
         else
           let found = take 10 (filter (\<lambda>g. ilike b (guest_name g) (name @ py ''%''))
                                  (guests (store st)))
           in (map (search_hit_of (store st)) found, count_query st))"

subsection \<open>\<^verbatim>\<open>get_guest_group\<close>\<close>

text \<open>
  The JSON body: \<^verbatim>\<open>selected_guest_name\<close> and, under the key \<^verbatim>\<open>guests\<close> (here
  \<open>members\<close>), the id, name and status of each guest.
\<close>

record group_member =
  member_id :: int
  member_name :: pystr
  member_rsvp_status :: "pystr option"

record group_json =
  selected_guest_name :: pystr
  members :: "group_member list"

definition group_member_of :: "guest \<Rightarrow> group_member" where
  "group_member_of g =
     \<lparr>member_id = guest_id g, member_name = guest_name g,
      member_rsvp_status = guest_rsvp_status g\<rparr>"

text \<open>The body of the \<^verbatim>\<open>try\<close> block: the JSON body and the state, or the exception.\<close>

definition get_guest_group_body :: "int \<Rightarrow> app_state \<Rightarrow> exn + (group_json \<times> app_state)" where
  "get_guest_group_body gid st =
     (case or_404 (find (\<lambda>g. guest_id g = gid) (guests (store st))) of
        Inl e \<Rightarrow> Inl e
      | Inr g \<Rightarrow>
          let (found, st') =
                (if truthy_int (guest_group_id g)
                 then (filter (\<lambda>x. guest_group_id x = guest_group_id g) (guests (store st)),
                       count_query (count_query st))
                 else ([g], count_query st))
          in Inr (\<lparr>selected_guest_name = guest_name g,
                    members = map group_member_of found\<rparr>, st'))"

text \<open>
  \<^verbatim>\<open>except Exception\<close> catches every exception of the body, the \<^verbatim>\<open>NotFound\<close> of
  \<^verbatim>\<open>first_or_404\<close> included (werkzeug's HTTP exceptions derive from \<^verbatim>\<open>Exception\<close>),
  and answers with status 500.
\<close>

definition get_guest_group :: "int \<Rightarrow> app_state \<Rightarrow> group_json json_response \<times> app_state" where
  "get_guest_group gid st =
     (case get_guest_group_body gid st of
        Inl e \<Rightarrow> (Json500, count_query st)
      | Inr (body, st') \<Rightarrow> (Json200 body, st'))"

text \<open>
  The sibling route \<^verbatim>\<open>agradecimento_personalizado\<close> makes the same lookup outside any
  \<^verbatim>\<open>try\<close>, so its \<^verbatim>\<open>NotFound\<close> reaches the framework as a 404. The page is rendered
  with the guest's name.
\<close>

definition agradecimento_personalizado :: "int \<Rightarrow> app_state \<Rightarrow> pystr json_response \<times> app_state" where
  "agradecimento_personalizado gid st =
     (case or_404 (find (\<lambda>g. guest_id g = gid) (guests (store st))) of
        Inl e \<Rightarrow> (Abort404, count_query st)
      | Inr g \<Rightarrow> (Json200 (guest_name g), count_query st))"

subsection \<open>\<^verbatim>\<open>confirm_rsvp\<close>\<close>

text \<open>
  The loop over \<^verbatim>\<open>guest_ids\<close>, with the accumulators \<^verbatim>\<open>updates\<close> and
  \<^verbatim>\<open>confirmed_count\<close>. \<^verbatim>\<open>int(guest_id)\<close> is evaluated only for an accepted status and
  may raise.
\<close>

definition valid_status :: "pystr \<Rightarrow> bool" where
  "valid_status s = (s = py ''confirmado'' \<or> s = py ''nao_confirmado'')"

fun collect_updates ::
  "form \<Rightarrow> pystr list \<Rightarrow> (int \<times> pystr) list \<Rightarrow> nat \<Rightarrow> exn + ((int \<times> pystr) list \<times> nat)" where
  "collect_updates f [] updates confirmed_count = Inr (updates, confirmed_count)"
| "collect_updates f (gid # rest) updates confirmed_count =
     (case form_get f (py ''rsvp_'' @ gid) of
        None \<Rightarrow> collect_updates f rest updates confirmed_count
      | Some status \<Rightarrow>
          if valid_status status then
            (case py_int gid of
               None \<Rightarrow> Inl ValueError
             | Some i \<Rightarrow>
                 collect_updates f rest (updates @ [(i, status)]) (Suc confirmed_count))
          else collect_updates f rest updates confirmed_count)"

text \<open>
  \<^verbatim>\<open>db.session.bulk_update_mappings(Guest, updates)\<close>: one
  \<^verbatim>\<open>UPDATE guest SET rsvp_status = .. WHERE id = ..\<close> for each mapping, in order. Where the
  dialect reports the matched rows, SQLAlchemy raises \<^verbatim>\<open>StaleDataError\<close> unless as many
  rows were matched as there are mappings; a batch of several statements is checked
  only under \<^verbatim>\<open>supports_sane_multi_rowcount\<close>.
\<close>

definition update_row :: "int \<times> pystr \<Rightarrow> guest list \<Rightarrow> guest list" where
  "update_row u gs =
     map (\<lambda>g. if guest_id g = fst u then g\<lparr>guest_rsvp_status := Some (snd u)\<rparr> else g) gs"

definition matched_rows :: "int \<times> pystr \<Rightarrow> guest list \<Rightarrow> nat" where
  "matched_rows u gs = length (filter (\<lambda>g. guest_id g = fst u) gs)"

definition check_rowcount :: "backend \<Rightarrow> nat \<Rightarrow> bool" where
  "check_rowcount b n = (sane_rowcount b \<and> (sane_multi_rowcount b \<or> n = 1))"

definition bulk_update_mappings ::
  "backend \<Rightarrow> (int \<times> pystr) list \<Rightarrow> guest list \<Rightarrow> exn + guest list" where
  "bulk_update_mappings b updates gs =
     (let rows = sum_list (map (\<lambda>u. matched_rows u gs) updates)
      in if check_rowcount b (length updates) \<and> rows \<noteq> length updates
         then Inl StaleDataError
         else Inr (fold update_row updates gs))"

definition confirm_rsvp ::
  "backend \<Rightarrow> form \<Rightarrow> app_state \<Rightarrow> endpoint \<times> flash list \<times> app_state" where
  "confirm_rsvp b f st =
     (let guest_ids = form_getlist f (py ''guest_ids'')
      in if guest_ids = [] then (Rsvp, [(Danger, NoGuestSelected)], st)
         else
           (case collect_updates f guest_ids [] 0 of
              Inl e \<Rightarrow> (Rsvp, [(Danger, RsvpError)], st)
            | Inr (updates, confirmed_count) \<Rightarrow>
                if updates \<noteq> [] then
                  (case bulk_update_mappings b updates (guests (store st)) of
                     Inl e \<Rightarrow> (Rsvp, [(Danger, RsvpError)], st)
                   | Inr gs \<Rightarrow>
                       (case commit b ((store st)\<lparr>guests := gs\<rparr>) of
                          Inl e \<Rightarrow> (Rsvp, [(Danger, RsvpError)], st)
                        | Inr d \<Rightarrow>
                            (Rsvp, [(Success, RsvpRegistered confirmed_count)],
                             st\<lparr>store := d\<rparr>)))
                else (Rsvp, [(Warning, NothingProcessed)], st)))"

section \<open>Admin routes\<close>

subsection \<open>\<^verbatim>\<open>edit_guest\<close>\<close>

text \<open>\<^verbatim>\<open>int(group_id) if group_id and group_id.isdigit() else None\<close>\<close>

definition parse_group_id :: "pystr option \<Rightarrow> exn + int option" where
  "parse_group_id field =
     (case field of
        None \<Rightarrow> Inr None
      | Some s \<Rightarrow>
          if s \<noteq> [] \<and> isdigit s then
            (case py_int s of None \<Rightarrow> Inl ValueError | Some i \<Rightarrow> Inr (Some i))
          else Inr None)"

text \<open>The flush of a changed object: the row with its primary key is replaced.\<close>

definition replace_guest :: "guest \<Rightarrow> guest list \<Rightarrow> guest list" where
  "replace_guest g' gs = map (\<lambda>g. if guest_id g = guest_id g' then g' else g) gs"

definition edit_guest ::
  "backend \<Rightarrow> session \<Rightarrow> int \<Rightarrow> form \<Rightarrow> app_state \<Rightarrow> endpoint \<times> flash list \<times> app_state" where
  "edit_guest b sess gid f st =
     admin_required_optimized sess st
       (case or_404 (find (\<lambda>g. guest_id g = gid) (guests (store st))) of
          Inl e \<Rightarrow> (AdminGuests, [(Danger, GuestEditError e)], count_query st)
        | Inr g \<Rightarrow>
            let name = strip (form_get_default f (py ''name'') []);
                phone = strip (form_get_default f (py ''phone'') []);
                group_id' = form_get f (py ''group_id'');
                rsvp_status = form_get_default f (py ''rsvp_status'') (py ''pendente'')
            in if name = [] then (AdminGuests, [(Danger, GuestNameRequired)], count_query st)
               else
                 (case parse_group_id group_id' of
                    Inl e \<Rightarrow> (AdminGuests, [(Danger, GuestEditError e)], count_query st)
                  | Inr new_group \<Rightarrow>
                      let g' = g\<lparr>guest_name := name,
                                 guest_phone := or_none phone,
                                 guest_group_id := new_group,
                                 guest_rsvp_status := Some rsvp_status\<rparr>
                      in (case commit b ((store st)\<lparr>guests :=
                                            replace_guest g' (guests (store st))\<rparr>) of
                            Inl e \<Rightarrow> (AdminGuests, [(Danger, GuestEditError e)], count_query st)
                          | Inr d \<Rightarrow>
                              (AdminGuests, [(Success, GuestUpdated name)],
                               (count_query st)\<lparr>store := d\<rparr>))))"

subsection \<open>\<^verbatim>\<open>delete_group\<close>\<close>

definition delete_group ::
  "backend \<Rightarrow> session \<Rightarrow> int \<Rightarrow> app_state \<Rightarrow> endpoint \<times> flash list \<times> app_state" where
  "delete_group b sess gid st =
     admin_required_optimized sess st
       (case or_404 (find (\<lambda>gr. group_id gr = gid) (groups (store st))) of
          Inl e \<Rightarrow> (AdminGroups, [(Danger, GroupRemoveError e)], count_query st)
        | Inr gr \<Rightarrow>
            let group_name' = group_name gr;
                guests_count = length (filter (\<lambda>g. guest_group_id g = Some gid)
                                         (guests (store st)));
                st' = count_query (count_query st)
            in if guests_count > 0
               then (AdminGroups, [(Danger, GroupHasGuests group_name' guests_count)], st')
               else
                 (case commit b ((store st)\<lparr>groups :=
                                    filter (\<lambda>x. group_id x \<noteq> group_id gr)
                                      (groups (store st))\<rparr>) of
                    Inl e \<Rightarrow> (AdminGroups, [(Danger, GroupRemoveError e)], st')
                  | Inr d \<Rightarrow>
                      (AdminGroups, [(Success, GroupRemoved group_name')], st'\<lparr>store := d\<rparr>)))"

subsection \<open>\<^verbatim>\<open>update_venue\<close>\<close>

text \<open>
  The two \<^verbatim>\<open>try\<close> blocks around \<^verbatim>\<open>strptime\<close>: the venue with the parsed fields set,
  or the venue as it was and the flashed warning.
\<close>

definition set_event_fields :: "pystr \<Rightarrow> pystr \<Rightarrow> venue_info \<Rightarrow> venue_info \<times> flash list" where
  "set_event_fields event_date event_time venue =
     (if event_date \<noteq> [] \<and> event_time \<noteq> [] then
        (case strptime_datetime (event_date @ py '' '' @ event_time) of
           Inr event_datetime \<Rightarrow>
             (venue\<lparr>venue_event_datetime := Some event_datetime,
                    venue_date := Some (date_part event_datetime),
                    venue_time := Some (time_part event_datetime)\<rparr>, [])
         | Inl e \<Rightarrow> (venue, [(Warning, BadDateOrTime)]))
      else if event_date \<noteq> [] then
        (case strptime_date event_date of
           Inr event_date_obj \<Rightarrow> (venue\<lparr>venue_date := Some event_date_obj\<rparr>, [])
         | Inl e \<Rightarrow> (venue, [(Warning, BadDate)]))
      else (venue, []))"

text \<open>
  \<^verbatim>\<open>VenueInfo()\<close> as it is inserted: the columns not assigned by the route are NULL,
  the key comes from the table's row counter and \<^verbatim>\<open>created_at\<close> from the column
  default, evaluated at the insert (\<open>insert_now\<close>).
\<close>

definition new_venue :: "venue_info list \<Rightarrow> timestamp \<Rightarrow> venue_info" where
  "new_venue rows insert_now =
     \<lparr>venue_id = fold max (map venue_id rows) 0 + 1,
      venue_name = [],
      venue_address = None,
      venue_map_link = None,
      venue_description = None,
      venue_date = None,
      venue_time = None,
      venue_event_datetime = None,
      venue_created_at = Some insert_now,
      venue_updated_at = None\<rparr>"

text \<open>
  \<open>now\<close> is the value of \<^verbatim>\<open>datetime.utcnow()\<close> assigned to \<^verbatim>\<open>updated_at\<close>. An
  object loaded by the query is already in the session, so \<^verbatim>\<open>db.session.add\<close> only
  matters for the new object: the commit inserts a new row or updates the loaded one.
\<close>

definition update_venue ::
  "backend \<Rightarrow> timestamp \<Rightarrow> timestamp \<Rightarrow> session \<Rightarrow> form \<Rightarrow> app_state \<Rightarrow>
     endpoint \<times> flash list \<times> app_state" where
  "update_venue b now insert_now sess f st =
     admin_required_optimized sess st
       (let name = strip (form_get_default f (py ''name'') []);
            address = strip (form_get_default f (py ''address'') []);
            map_link = strip (form_get_default f (py ''map_link'') []);
            description = strip (form_get_default f (py ''description'') []);
            event_date = strip (form_get_default f (py ''event_date'') []);
            event_time = strip (form_get_default f (py ''event_time'') [])
        in if name = [] then (AdminVenue, [(Danger, VenueNameRequired)], st)
           else
             let rows = venues (store st);
                 venue0 = (case query_first rows of
                             None \<Rightarrow> new_venue rows insert_now
                           | Some v \<Rightarrow> v);
                 venue1 = venue0\<lparr>venue_name := name,
                                 venue_address := or_none address,
                                 venue_map_link := or_none map_link,
                                 venue_description := or_none description\<rparr>;
                 (venue2, warnings) = set_event_fields event_date event_time venue1;
                 venue3 = venue2\<lparr>venue_updated_at := Some now\<rparr>;
                 rows' = (case rows of [] \<Rightarrow> [venue3] | v # rest \<Rightarrow> venue3 # rest);
                 st' = count_query st
             in (case commit b ((store st)\<lparr>venues := rows'\<rparr>) of
                   Inl e \<Rightarrow> (AdminVenue, warnings @ [(Danger, VenueUpdateError e)], st')
                 | Inr d \<Rightarrow>
                     (AdminVenue, warnings @ [(Success, VenueUpdated)],
                      invalidate_venue_cache (st'\<lparr>store := d\<rparr>))))"

section \<open>Notifications (send_whatsapp.py)\<close>

subsection \<open>The message templates\<close>

text \<open>
  The four entries of \<^verbatim>\<open>WEDDING_MESSAGES\<close>, character by character (code points
  beyond ASCII as numbers, 10 the line feed).
\<close>

definition template_confirmation_reminder :: pystr where
  "template_confirmation_reminder =
     [10, 129293] @ py '' Ol'' @ [225] @ py ''! Este '' @ [233] @
     py '' um lembrete gentil sobre nosso casamento.'' @ [10, 10, 128197] @
     py '' Data: {date}'' @ [10, 9200] @ py '' Hor'' @ [225] @ py ''rio: {time}'' @
     [10, 128205] @ py '' Local: {venue}'' @ [10, 10] @ py ''Por favor, confirme sua presen'' @
     [231] @ py ''a atrav'' @ [233] @ py ''s do link: {rsvp_link}'' @ [10, 10] @
     py ''Aguardamos voc'' @ [234] @ py ''! '' @ [128149, 10]"

definition template_thank_you :: pystr where
  "template_thank_you =
     [10, 129293] @ py '' Muito obrigado(a) por confirmar sua presen'' @ [231] @
     py ''a em nosso casamento!'' @ [10, 10, 128197] @ py '' Data: {date}'' @ [10, 9200] @
     py '' Hor'' @ [225] @ py ''rio: {time}'' @ [10, 128205] @ py '' Local: {venue}'' @
     [10, 10] @ py ''Estamos ansiosos para celebrar este momento especial com voc'' @ [234] @
     py ''! '' @ [128149, 10]"

definition template_venue_update :: pystr where
  "template_venue_update =
     [10, 129293] @ py '' Informa'' @ [231, 245] @
     py ''es importantes sobre nosso casamento:'' @ [10, 10, 128197] @ py '' Data: {date}'' @
     [10, 9200] @ py '' Hor'' @ [225] @ py ''rio: {time}'' @ [10, 128205] @
     py '' Local: {venue}'' @ [10, 128506, 65039] @ py '' Endere'' @ [231] @
     py ''o: {address}'' @ [10, 10] @ py ''N'' @ [227] @ py ''o esque'' @ [231] @
     py ''a de confirmar sua presen'' @ [231] @ py ''a! '' @ [128149, 10]"

definition template_gift_registry :: pystr where
  "template_gift_registry =
     [10, 129293] @ py '' Nosso casamento est'' @ [225] @ py '' chegando!'' @
     [10, 10, 127873] @
     py '' Criamos uma lista de presentes para facilitar. Confira em: {gift_link}'' @
     [10, 10, 128197] @ py '' Data: {date}'' @ [10, 9200] @ py '' Hor'' @ [225] @
     py ''rio: {time}'' @ [10, 10] @ py ''Sua presen'' @ [231] @ py ''a j'' @ [225] @
     py '' '' @ [233] @ py '' nosso maior presente! '' @ [128149, 10]"

definition WEDDING_MESSAGES :: "(pystr \<times> pystr) list" where
  "WEDDING_MESSAGES =
     [(py ''confirmation_reminder'', template_confirmation_reminder),
      (py ''thank_you'', template_thank_you),
      (py ''venue_update'', template_venue_update),
      (py ''gift_registry'', template_gift_registry)]"

subsection \<open>\<^verbatim>\<open>str.format\<close> with keyword arguments\<close>

text \<open>
  \<^verbatim>\<open>template.format(**kwargs)\<close>, the values being strings: doubled braces stand for
  a brace, a single closing brace or an unclosed field is a \<^verbatim>\<open>ValueError\<close>, an
  empty or numeric field name asks for a positional argument and raises
  \<^verbatim>\<open>IndexError\<close>, an opening brace inside a field name is a \<^verbatim>\<open>ValueError\<close>, and a
  plain name is looked up in the keyword arguments (\<^verbatim>\<open>KeyError\<close> if absent). Field
  names with an attribute, an index, a conversion or a format specification
  (\<^verbatim>\<open>.\<close>, \<^verbatim>\<open>[\<close>, \<^verbatim>\<open>!\<close>, \<^verbatim>\<open>:\<close>) are outside the model; no template has one. The
  second argument is \<open>None\<close> in literal text and the field name read so far inside
  a field.
\<close>

definition lookup_field :: "(pystr \<times> pystr) list \<Rightarrow> pystr \<Rightarrow> exn + pystr" where
  "lookup_field kwargs name =
     (if 123 \<in> set name then Inl ValueError
      else if list_ex (\<lambda>c. c = 46 \<or> c = 91 \<or> c = 33 \<or> c = 58) name then Inl NotModelled
      else if list_all is_decimal name then Inl IndexError
      else (case map_of kwargs name of None \<Rightarrow> Inl (KeyError name) | Some v \<Rightarrow> Inr v))"

definition prepend :: "pystr \<Rightarrow> exn + pystr \<Rightarrow> exn + pystr" where
  "prepend s r = (case r of Inl e \<Rightarrow> Inl e | Inr t \<Rightarrow> Inr (s @ t))"

fun format_from :: "(pystr \<times> pystr) list \<Rightarrow> pystr option \<Rightarrow> pystr \<Rightarrow> exn + pystr" where
  "format_from kwargs None [] = Inr []"
| "format_from kwargs (Some name) [] = Inl ValueError"
| "format_from kwargs None [c] =
     (if c = 123 \<or> c = 125 then Inl ValueError else Inr [c])"
| "format_from kwargs None (c # d # cs) =
     (if c = 123 then
        (if d = 123 then prepend [123] (format_from kwargs None cs)
         else format_from kwargs (Some []) (d # cs))
      else if c = 125 then
        (if d = 125 then prepend [125] (format_from kwargs None cs)
         else Inl ValueError)
      else prepend [c] (format_from kwargs None (d # cs)))"
| "format_from kwargs (Some name) (c # cs) =
     (if c = 125 then
        (case lookup_field kwargs name of
           Inl e \<Rightarrow> Inl e
         | Inr v \<Rightarrow> prepend v (format_from kwargs None cs))
      else format_from kwargs (Some (name @ [c])) cs)"

definition format_str :: "pystr \<Rightarrow> (pystr \<times> pystr) list \<Rightarrow> exn + pystr" where
  "format_str template kwargs = format_from kwargs None template"

text \<open>\<^verbatim>\<open>get_wedding_message(message_type, **kwargs)\<close>\<close>

definition get_wedding_message :: "pystr \<Rightarrow> (pystr \<times> pystr) list \<Rightarrow> exn + pystr" where
  "get_wedding_message message_type kwargs =
     (let template = (case map_of WEDDING_MESSAGES message_type of None \<Rightarrow> [] | Some t \<Rightarrow> t)
      in if template \<noteq> [] then format_str template kwargs else Inr [])"

subsection \<open>The templates as literal text and placeholders\<close>

text \<open>
  What the specification means by a template with its placeholders substituted: the
  template read as a sequence of literal texts and named placeholders, each placeholder
  replaced by the variable of that name.
\<close>

datatype piece = Lit pystr | Field pystr

fun unparse :: "piece list \<Rightarrow> pystr" where
  "unparse [] = []"
| "unparse (Lit s # ps) = s @ unparse ps"
| "unparse (Field n # ps) = [123] @ n @ [125] @ unparse ps"

fun substitute :: "(pystr \<times> pystr) list \<Rightarrow> piece list \<Rightarrow> exn + pystr" where
  "substitute kwargs [] = Inr []"
| "substitute kwargs (Lit s # ps) = prepend s (substitute kwargs ps)"
| "substitute kwargs (Field n # ps) =
     (case map_of kwargs n of
        None \<Rightarrow> Inl (KeyError n)
      | Some v \<Rightarrow> prepend v (substitute kwargs ps))"

fun placeholders :: "piece list \<Rightarrow> pystr list" where
  "placeholders [] = []"
| "placeholders (Lit s # ps) = placeholders ps"
| "placeholders (Field n # ps) = n # placeholders ps"

definition pieces_confirmation_reminder :: "piece list" where
  "pieces_confirmation_reminder =
    [Lit ([10, 129293] @ py '' Ol'' @ [225] @ py ''! Este '' @ [233] @
          py '' um lembrete gentil sobre nosso casamento.'' @ [10, 10, 128197] @
          py '' Data: ''),
     Field (py ''date''),
     Lit ([10, 9200] @ py '' Hor'' @ [225] @ py ''rio: ''),
     Field (py ''time''),
     Lit ([10, 128205] @ py '' Local: ''),
     Field (py ''venue''),
     Lit ([10, 10] @ py ''Por favor, confirme sua presen'' @ [231] @ py ''a atrav'' @ [233] @
          py ''s do link: ''),
     Field (py ''rsvp_link''),
     Lit ([10, 10] @ py ''Aguardamos voc'' @ [234] @ py ''! '' @ [128149, 10])]"

definition pieces_thank_you :: "piece list" where
  "pieces_thank_you =
    [Lit ([10, 129293] @ py '' Muito obrigado(a) por confirmar sua presen'' @ [231] @
          py ''a em nosso casamento!'' @ [10, 10, 128197] @ py '' Data: ''),
     Field (py ''date''),
     Lit ([10, 9200] @ py '' Hor'' @ [225] @ py ''rio: ''),
     Field (py ''time''),
     Lit ([10, 128205] @ py '' Local: ''),
     Field (py ''venue''),
     Lit ([10, 10] @ py ''Estamos ansiosos para celebrar este momento especial com voc'' @
          [234] @ py ''! '' @ [128149, 10])]"

definition pieces_venue_update :: "piece list" where
  "pieces_venue_update =
    [Lit ([10, 129293] @ py '' Informa'' @ [231, 245] @
          py ''es importantes sobre nosso casamento:'' @ [10, 10, 128197] @ py '' Data: ''),
     Field (py ''date''),
     Lit ([10, 9200] @ py '' Hor'' @ [225] @ py ''rio: ''),
     Field (py ''time''),
     Lit ([10, 128205] @ py '' Local: ''),
     Field (py ''venue''),
     Lit ([10, 128506, 65039] @ py '' Endere'' @ [231] @ py ''o: ''),
     Field (py ''address''),
     Lit ([10, 10] @ py ''N'' @ [227] @ py ''o esque'' @ [231] @
          py ''a de confirmar sua presen'' @ [231] @ py ''a! '' @ [128149, 10])]"

definition pieces_gift_registry :: "piece list" where
  "pieces_gift_registry =
    [Lit ([10, 129293] @ py '' Nosso casamento est'' @ [225] @ py '' chegando!'' @
          [10, 10, 127873] @
          py '' Criamos uma lista de presentes para facilitar. Confira em: ''),
     Field (py ''gift_link''),
     Lit ([10, 10, 128197] @ py '' Data: ''),
     Field (py ''date''),
     Lit ([10, 9200] @ py '' Hor'' @ [225] @ py ''rio: ''),
     Field (py ''time''),
     Lit ([10, 10] @ py ''Sua presen'' @ [231] @ py ''a j'' @ [225] @ py '' '' @ [233] @
          py '' nosso maior presente! '' @ [128149, 10])]"

definition WEDDING_PIECES :: "(pystr \<times> piece list) list" where
  "WEDDING_PIECES =
     [(py ''confirmation_reminder'', pieces_confirmation_reminder),
      (py ''thank_you'', pieces_thank_you),
      (py ''venue_update'', pieces_venue_update),
      (py ''gift_registry'', pieces_gift_registry)]"

subsection \<open>Sending\<close>

text \<open>
  The three Twilio settings read from the environment, and the provider: the call
  \<^verbatim>\<open>client.messages.create(body, from_, to)\<close> returns a message with its sid and
  status or raises, and the text of the exception becomes the error of the result.
\<close>

record twilio_env =
  TWILIO_ACCOUNT_SID :: "pystr option"
  TWILIO_AUTH_TOKEN :: "pystr option"
  TWILIO_PHONE_NUMBER :: "pystr option"

record provider_call =
  call_from :: pystr
  call_to :: pystr
  call_body :: pystr

type_synonym provider = "provider_call \<Rightarrow> pystr + (pystr \<times> pystr)"

text \<open>The result dict of \<^verbatim>\<open>send_whatsapp_message\<close>.\<close>

datatype 'a send_result = SendOk pystr pystr 'a | SendFailed pystr

definition result_success :: "'a send_result \<Rightarrow> bool" where
  "result_success r = (case r of SendOk sid status to \<Rightarrow> True | SendFailed e \<Rightarrow> False)"

definition result_error :: "'a send_result \<Rightarrow> pystr option" where
  "result_error r = (case r of SendOk sid status to \<Rightarrow> None | SendFailed e \<Rightarrow> Some e)"

definition credentials_error :: pystr where
  "credentials_error =
     py ''Credenciais do Twilio n'' @ [227] @
     py ''o configuradas. Verifique TWILIO_ACCOUNT_SID, TWILIO_AUTH_TOKEN e TWILIO_PHONE_NUMBER.''"

text \<open>
  \<^verbatim>\<open>send_whatsapp_message\<close>, with \<open>to_str\<close> the text that the f-string
  \<^verbatim>\<open>f"whatsapp:{to_phone_number}"\<close> makes of its argument. The result comes with the
  calls made to the provider.
\<close>

definition send_whatsapp_message ::
  "twilio_env \<Rightarrow> provider \<Rightarrow> ('a \<Rightarrow> pystr) \<Rightarrow> 'a \<Rightarrow> pystr \<Rightarrow> 'a send_result \<times> provider_call list" where
  "send_whatsapp_message env twilio to_str to_phone_number msg =
     (if \<not> (truthy_str (TWILIO_ACCOUNT_SID env) \<and> truthy_str (TWILIO_AUTH_TOKEN env)
             \<and> truthy_str (TWILIO_PHONE_NUMBER env))
      then (SendFailed credentials_error, [])
      else
        let whatsapp_number = py ''whatsapp:'' @ to_str to_phone_number;
            twilio_whatsapp_number =
              py ''whatsapp:'' @
                (case TWILIO_PHONE_NUMBER env of None \<Rightarrow> py ''None'' | Some n \<Rightarrow> n);
            call = \<lparr>call_from = twilio_whatsapp_number, call_to = whatsapp_number,
                    call_body = msg\<rparr>
        in (case twilio call of
              Inl e \<Rightarrow> (SendFailed e, [call])
            | Inr (sid, status) \<Rightarrow> (SendOk sid status to_phone_number, [call])))"

text \<open>The dict returned by \<^verbatim>\<open>send_bulk_whatsapp_messages\<close> and its keys, in insertion order.\<close>

record 'a bulk_entry =
  entry_phone :: 'a
  entry_success :: bool
  entry_error :: "pystr option"

record 'a bulk_result =
  total :: nat
  successful :: nat
  failed :: nat
  results :: "'a bulk_entry list"

definition bulk_result_keys :: "pystr list" where
  "bulk_result_keys = [py ''total'', py ''successful'', py ''failed'', py ''results'']"

fun bulk_loop ::
  "twilio_env \<Rightarrow> provider \<Rightarrow> ('a \<Rightarrow> pystr) \<Rightarrow> pystr \<Rightarrow> 'a list \<Rightarrow>
     'a bulk_result \<times> provider_call list \<Rightarrow> 'a bulk_result \<times> provider_call list" where
  "bulk_loop env twilio to_str msg [] acc = acc"
| "bulk_loop env twilio to_str msg (phone # rest) acc =
     (let (result, calls) = send_whatsapp_message env twilio to_str phone msg;
          res = fst acc;
          res1 = res\<lparr>results := results res @
                   [\<lparr>entry_phone = phone, entry_success = result_success result,
                     entry_error = result_error result\<rparr>]\<rparr>;
          res2 = (if result_success result
                  then res1\<lparr>successful := successful res1 + 1\<rparr>
                  else res1\<lparr>failed := failed res1 + 1\<rparr>)
      in bulk_loop env twilio to_str msg rest (res2, snd acc @ calls))"

definition send_bulk_whatsapp_messages ::
  "twilio_env \<Rightarrow> provider \<Rightarrow> ('a \<Rightarrow> pystr) \<Rightarrow> 'a list \<Rightarrow> pystr \<Rightarrow>
     'a bulk_result \<times> provider_call list" where
  "send_bulk_whatsapp_messages env twilio to_str phone_numbers msg =
     bulk_loop env twilio to_str msg phone_numbers
       (\<lparr>total = length phone_numbers, successful = 0, failed = 0, results = []\<rparr>, [])"

subsection \<open>The route \<^verbatim>\<open>send_whatsapp\<close>\<close>

text \<open>
  The route hands \<^verbatim>\<open>Guest\<close> objects, not phone numbers, to the dispatcher; in an
  f-string such an object reads \<^verbatim>\<open><Guest 7>\<close>.
\<close>

definition guest_repr :: "guest \<Rightarrow> pystr" where
  "guest_repr g = py ''<Guest '' @ str_int (guest_id g) @ py ''>''"

text \<open>
  \<^verbatim>\<open>a, b, c = xs\<close>: unpacking takes exactly three items, or raises \<^verbatim>\<open>ValueError\<close>.
  Iterating a dict yields its keys.
\<close>

definition unpack3 :: "'a list \<Rightarrow> exn + ('a \<times> 'a \<times> 'a)" where
  "unpack3 xs = (case xs of [a, b, c] \<Rightarrow> Inr (a, b, c) | _ \<Rightarrow> Inl ValueError)"

text \<open>
  The route returns the redirect target, the flashed messages, the new state and the
  calls made to the provider. Two of its calls do not fit the functions they call:
  \<^item> \<^verbatim>\<open>get_wedding_message(message_type, venue)\<close> passes a second positional argument
    to a function with one positional parameter, which is a \<^verbatim>\<open>TypeError\<close> before the
    function body runs (the cache has been read by then);
  \<^item> \<^verbatim>\<open>success_count, error_count, errors = send_bulk_whatsapp_messages(..)\<close> unpacks
    the returned dict, that is its keys; three keys would give strings, and the
    comparison \<^verbatim>\<open>success_count > 0\<close> of a string with a number is a \<^verbatim>\<open>TypeError\<close>.
  Every exception is caught by the route's \<^verbatim>\<open>except Exception\<close>, which flashes it.
  The check of the decorator \<^verbatim>\<open>admin_required_optimized\<close> is written out, the
  result having one more component than that of the other admin routes.
\<close>

definition send_whatsapp ::
  "twilio_env \<Rightarrow> provider \<Rightarrow> timestamp \<Rightarrow> session \<Rightarrow> form \<Rightarrow> app_state \<Rightarrow>
     (endpoint \<times> flash list \<times> app_state) \<times> provider_call list" where
  "send_whatsapp env twilio now sess f st =
     (if py ''admin_id'' \<notin> set sess then ((AdminLogin, [(Danger, AccessDenied)], st), [])
      else
        let message_type = form_get_default f (py ''message_type'') (py ''invite'');
            custom_message = strip (form_get_default f (py ''custom_message'') []);
            selected_guests = form_getlist f (py ''guest_ids'')
        in if selected_guests = []
           then ((AdminWhatsapp, [(Warning, NoGuestSelectedForSend)], st), [])
           else
             (case those (map py_int selected_guests) of
                None \<Rightarrow> ((AdminWhatsapp, [(Danger, GeneralSendError ValueError)], st), [])
              | Some guest_ids \<Rightarrow>
                  let found = filter (\<lambda>g. guest_id g \<in> set guest_ids) (guests (store st));
                      st1 = count_query st;
                      guests_without_phone = filter (\<lambda>g. \<not> truthy_str (guest_phone g)) found;
                      flashed = (if guests_without_phone \<noteq> []
                                 then [(Warning, GuestsWithoutPhone
                                                   (map guest_name guests_without_phone))]
                                 else []);
                      guests_with_phone = filter (\<lambda>g. truthy_str (guest_phone g)) found
                  in if guests_with_phone = []
                     then ((AdminWhatsapp, flashed @ [(Danger, NoSelectedGuestHasPhone)], st1), [])
                     else if message_type = py ''custom'' \<and> custom_message \<noteq> [] then
                       let (res, calls) = send_bulk_whatsapp_messages env twilio guest_repr
                                            guests_with_phone custom_message
                       in (case unpack3 bulk_result_keys of
                             Inl e \<Rightarrow>
                               ((AdminWhatsapp, flashed @ [(Danger, GeneralSendError e)], st1),
                                calls)
                           | Inr (success_count, error_count, errors) \<Rightarrow>
                               ((AdminWhatsapp,
                                 flashed @ [(Danger, GeneralSendError TypeError)], st1), calls))
                     else
                       let (venue, st2) = get_cached_venue now st1
                       in ((AdminWhatsapp, flashed @ [(Danger, GeneralSendError TypeError)], st2),
                           [])))"

section \<open>Sample data\<close>

text \<open>A small store, a session and two backends, on which the properties are exercised.\<close>

definition ana :: guest where
  "ana = \<lparr>guest_id = 1, guest_name = py ''Ana Silva'', guest_phone = Some (py ''+5511999990001''),
           guest_rsvp_status = Some (py ''pendente''), guest_group_id = Some 1,
           guest_created_at = None\<rparr>"

definition bruno :: guest where
  "bruno = \<lparr>guest_id = 2, guest_name = py ''Bruno Silva'',
             guest_phone = Some (py ''+5511999990002''),
             guest_rsvp_status = Some (py ''pendente''), guest_group_id = Some 1,
             guest_created_at = None\<rparr>"

definition carla :: guest where
  "carla = \<lparr>guest_id = 3, guest_name = py ''Carla Souza'', guest_phone = None,
             guest_rsvp_status = Some (py ''pendente''), guest_group_id = None,
             guest_created_at = None\<rparr>"

definition familia :: guest_group where
  "familia = \<lparr>group_id = 1, group_name = py ''Silva'', group_description = None,
               group_created_at = None\<rparr>"

definition amigos :: guest_group where
  "amigos = \<lparr>group_id = 2, group_name = py ''Amigos'', group_description = None,
              group_created_at = None\<rparr>"

definition venue_X :: venue_info where
  "venue_X = \<lparr>venue_id = 1, venue_name = py ''X'', venue_address = None,
               venue_map_link = None, venue_description = None, venue_date = None,
               venue_time = None, venue_event_datetime = None, venue_created_at = None,
               venue_updated_at = None\<rparr>"

definition sample_db :: database where
  "sample_db = \<lparr>guests = [ana, bruno, carla], groups = [familia, amigos], venues = []\<rparr>"

definition sample_state :: app_state where
  "sample_state = \<lparr>store = sample_db, venue_cache = [], venue_cache_time = None,
                    query_count = 0\<rparr>"

definition venue_state :: app_state where
  "venue_state = \<lparr>store = sample_db\<lparr>venues := [venue_X]\<rparr>, venue_cache = [],
                   venue_cache_time = None, query_count = 0\<rparr>"

definition admin_session :: session where
  "admin_session = [py ''admin_id'', py ''admin_username'']"

definition sqlite_backend :: backend where
  "sqlite_backend = \<lparr>commit_accepts = (\<lambda>d. True), sane_rowcount = True,
                      sane_multi_rowcount = True, like_escape = None\<rparr>"

definition postgres_backend :: backend where
  "postgres_backend = \<lparr>commit_accepts = (\<lambda>d. True), sane_rowcount = True,
                        sane_multi_rowcount = False, like_escape = Some 92\<rparr>"

text \<open>
  Submissions to \<^verbatim>\<open>confirm_rsvp\<close>: guest 1 confirmed and guest 3 with an unknown
  status; guest 3 alone with an unknown status; a guest id that is not a number; a
  guest id that no row has.
\<close>

definition rsvp_form :: form where
  "rsvp_form = [(py ''guest_ids'', py ''1''), (py ''guest_ids'', py ''3''),
                (py ''rsvp_1'', py ''confirmado''), (py ''rsvp_3'', py ''bogus'')]"

definition bogus_form :: form where
  "bogus_form = [(py ''guest_ids'', py ''3''), (py ''rsvp_3'', py ''bogus'')]"

definition malformed_id_form :: form where
  "malformed_id_form = [(py ''guest_ids'', py ''x1''), (py ''rsvp_x1'', py ''confirmado'')]"

definition unknown_id_form :: form where
  "unknown_id_form = [(py ''guest_ids'', py ''99''), (py ''rsvp_99'', py ''nao_confirmado'')]"

text \<open>An edit of guest 1 by the admin, with a status of the admin's own.\<close>

definition edit_form :: form where
  "edit_form = [(py ''name'', py ''Ana Silva''), (py ''phone'', py ''''),
                (py ''rsvp_status'', py ''talvez'')]"

text \<open>
  Two submissions to \<^verbatim>\<open>update_venue\<close>: a name with a date and a time, then a new
  name alone; and a submission whose date is not a calendar date.
\<close>

definition venue_form :: form where
  "venue_form = [(py ''name'', py ''X''), (py ''event_date'', py ''2025-08-15''),
                 (py ''event_time'', py ''16:00'')]"

definition rename_form :: form where
  "rename_form = [(py ''name'', py ''Y'')]"

definition bad_date_form :: form where
  "bad_date_form = [(py ''name'', py ''Z''), (py ''event_date'', py ''2025-02-30'')]"

definition event_2025_08_15_16_00 :: pydatetime where
  "event_2025_08_15_16_00 =
     \<lparr>date_part = \<lparr>year = 2025, month = 8, day = 15\<rparr>, time_part = \<lparr>hour = 16, minute = 0\<rparr>\<rparr>"

definition venue_created :: venue_info where
  "venue_created =
     \<lparr>venue_id = 1, venue_name = py ''X'', venue_address = None, venue_map_link = None,
      venue_description = None, venue_date = Some (date_part event_2025_08_15_16_00),
      venue_time = Some (time_part event_2025_08_15_16_00),
      venue_event_datetime = Some event_2025_08_15_16_00,
      venue_created_at = Some 1001, venue_updated_at = Some 1000\<rparr>"

definition venue_cached_state :: app_state where
  "venue_cached_state =
     \<lparr>store = sample_db\<lparr>venues := [venue_created]\<rparr>,
      venue_cache = [(py ''venue'', Some venue_created)],
      venue_cache_time = Some 1500, query_count = 2\<rparr>"

text \<open>Variables for the message templates.\<close>

definition message_vars :: "(pystr \<times> pystr) list" where
  "message_vars = [(py ''date'', py ''15/08/2025''), (py ''time'', py ''16:00''),
                   (py ''venue'', py ''Quinta X'')]"

text \<open>
  Twilio settings, a provider that refuses the second recipient, and a submission to
  \<^verbatim>\<open>send_whatsapp\<close>: a custom message for the guests 1, 2 and 3, the last of whom has
  no phone; and the same selection with a predefined message type.
\<close>

definition sample_env :: twilio_env where
  "sample_env = \<lparr>TWILIO_ACCOUNT_SID = Some (py ''AC0''), TWILIO_AUTH_TOKEN = Some (py ''token''),
                  TWILIO_PHONE_NUMBER = Some (py ''+14155238886'')\<rparr>"

definition sample_twilio :: provider where
  "sample_twilio call =
     (if call_to call = py ''whatsapp:<Guest 2>''
      then Inl (py ''Unable to create record'')
      else Inr (py ''SM1'', py ''queued''))"

definition send_form :: form where
  "send_form = [(py ''message_type'', py ''custom''), (py ''custom_message'', py ''Oi''),
                (py ''guest_ids'', py ''1''), (py ''guest_ids'', py ''2''),
                (py ''guest_ids'', py ''3'')]"

definition send_template_form :: form where
  "send_template_form = [(py ''message_type'', py ''thank_you''),
                         (py ''guest_ids'', py ''1''), (py ''guest_ids'', py ''2''),
                         (py ''guest_ids'', py ''3'')]"

section \<open>Notions used to state the properties\<close>

text \<open>A guest row with its phone number blanked: what is left when the phone is ignored.\<close>

definition forget_phone :: "guest \<Rightarrow> guest" where
  "forget_phone g = g\<lparr>guest_phone := None\<rparr>"

text \<open>
  The submission to \<^verbatim>\<open>confirm_rsvp\<close> read as (guest id, status) pairs: one pair for
  each submitted guest id that comes with a status field. The valid pairs are those
  whose status is recognised; \<open>parsed_pairs\<close> turns their guest ids into integers, if
  every one of them is an integer.
\<close>

definition submitted_pairs_of :: "form \<Rightarrow> pystr list \<Rightarrow> (pystr \<times> pystr) list" where
  "submitted_pairs_of f gids =
     concat (map (\<lambda>gid. case form_get f (py ''rsvp_'' @ gid) of
                            None \<Rightarrow> []
                          | Some s \<Rightarrow> [(gid, s)]) gids)"

definition valid_pairs :: "form \<Rightarrow> (pystr \<times> pystr) list" where
  "valid_pairs f =
     filter (\<lambda>p. valid_status (snd p))
       (submitted_pairs_of f (form_getlist f (py ''guest_ids'')))"

definition parsed_pairs :: "(pystr \<times> pystr) list \<Rightarrow> (int \<times> pystr) list option" where
  "parsed_pairs ps = those (map (\<lambda>p. map_option (\<lambda>i. (i, snd p)) (py_int (fst p))) ps)"

text \<open>
  A guest row after a batch of (id, status) pairs has been applied: the status of the
  last pair for its id, or the row as it was if no pair names its id.
\<close>

definition status_after :: "(int \<times> pystr) list \<Rightarrow> guest \<Rightarrow> guest" where
  "status_after ups g =
     (case find (\<lambda>u. fst u = guest_id g) (rev ups) of
        None \<Rightarrow> g
      | Some u \<Rightarrow> g\<lparr>guest_rsvp_status := Some (snd u)\<rparr>)"

text \<open>The three values of the RSVP status that the specification allows.\<close>

definition rsvp_statuses :: "pystr list" where
  "rsvp_statuses = [py ''pendente'', py ''confirmado'', py ''nao_confirmado'']"

text \<open>
  A sequence of literal texts and placeholders is well formed when no literal text holds
  a brace and every placeholder name is a plain name: no brace, no \<^verbatim>\<open>.\<close>, \<^verbatim>\<open>[\<close>,
  \<^verbatim>\<open>!\<close> or \<^verbatim>\<open>:\<close>, and not a number.
\<close>

fun wf_piece :: "piece \<Rightarrow> bool" where
  "wf_piece (Lit s) = (123 \<notin> set s \<and> 125 \<notin> set s)"
| "wf_piece (Field n) =
     (123 \<notin> set n \<and> 125 \<notin> set n
      \<and> \<not> list_ex (\<lambda>c. c = 46 \<or> c = 91 \<or> c = 33 \<or> c = 58) n
      \<and> \<not> list_all is_decimal n)"

section \<open>Properties of the venue cache\<close>

lemma get_cached_venue_fresh:
  assumes "venue_cache_time st = Some t" and "t \<le> now" and "now - t < 300 * 1000000"
  shows "get_cached_venue now st = (dict_get (venue_cache st) (py ''venue''), st)"
proof -
  have "(now - t) div 1000000 < 300" using assms(3) by simp
  moreover have "0 \<le> (now - t) div 1000000" using assms(2) by simp
  ultimately have "timedelta_seconds (now - t) < 300"
    unfolding timedelta_seconds_def by simp
  then show ?thesis using assms(1) by (simp add: get_cached_venue_def)
qed

lemma get_cached_venue_refetch:
  assumes "venue_cache_time st = None \<or>
           (\<exists>t. venue_cache_time st = Some t \<and> 300 \<le> timedelta_seconds (now - t))"
  shows "get_cached_venue now st =
           (query_first (venues (store st)),
            st\<lparr>venue_cache := [(py ''venue'', query_first (venues (store st)))],
               venue_cache_time := Some now,
               query_count := Suc (query_count st)\<rparr>)"
  using assms by (auto simp: get_cached_venue_def Let_def)

lemma get_cached_venue_stale_same_day:
  assumes "venue_cache_time st = Some t"
    and "300 * 1000000 \<le> now - t" and "now - t < 86400 * 1000000"
  shows "query_count (snd (get_cached_venue now st)) = Suc (query_count st)"
proof -
  have lo: "300 \<le> (now - t) div 1000000" using assms(2) by simp
  have hi: "(now - t) div 1000000 < 86400" using assms(3) by simp
  have "timedelta_seconds (now - t) = (now - t) div 1000000"
    unfolding timedelta_seconds_def using lo hi by simp
  then have "300 \<le> timedelta_seconds (now - t)" using lo by simp
  then show ?thesis using assms(1) by (simp add: get_cached_venue_refetch)
qed

lemma get_cached_venue_after_invalidate:
  "get_cached_venue now (invalidate_venue_cache st) =
     (query_first (venues (store st)),
      st\<lparr>venue_cache := [(py ''venue'', query_first (venues (store st)))],
         venue_cache_time := Some now,
         query_count := Suc (query_count st)\<rparr>)"
  by (simp add: get_cached_venue_def invalidate_venue_cache_def Let_def)

text \<open>
  C3. Claimed: a call of \<^verbatim>\<open>get_cached_venue\<close> more than 300 seconds after the last
  fetch reads the store again. The route compares the \<^verbatim>\<open>.seconds\<close> component of the
  elapsed time and not the elapsed time: a call one day and ten seconds (86410 s) after
  the fetch sees \<^verbatim>\<open>.seconds = 10\<close>, answers from the cache, issues no query and keeps
  the old fetch time.
\<close>

theorem get_cached_venue_stale_after_a_day:
  "get_cached_venue 0 venue_state =
     (Some venue_X,
      venue_state\<lparr>venue_cache := [(py ''venue'', Some venue_X)],
                  venue_cache_time := Some 0, query_count := 1\<rparr>)
   \<and> get_cached_venue (86410 * 1000000)
        (venue_state\<lparr>venue_cache := [(py ''venue'', Some venue_X)],
                    venue_cache_time := Some 0, query_count := 1\<rparr>) =
     (Some venue_X,
      venue_state\<lparr>venue_cache := [(py ''venue'', Some venue_X)],
                  venue_cache_time := Some 0, query_count := 1\<rparr>)"
  by (simp add: get_cached_venue_def venue_state_def query_first_def dict_get_def
      timedelta_seconds_def py_def Let_def)

section \<open>Looking up a guest's group\<close>

lemma get_guest_group_unknown_guest:
  "find (\<lambda>g. guest_id g = gid) (guests (store st)) = None \<Longrightarrow>
     fst (get_guest_group gid st) = Json500"
  by (simp add: get_guest_group_def get_guest_group_body_def or_404_def)

lemma get_guest_group_known_guest:
  assumes "find (\<lambda>g. guest_id g = gid) (guests (store st)) = Some g"
  shows "fst (get_guest_group gid st) =
           Json200 \<lparr>selected_guest_name = guest_name g,
                    members = map group_member_of
                      (if truthy_int (guest_group_id g)
                       then filter (\<lambda>x. guest_group_id x = guest_group_id g) (guests (store st))
                       else [g])\<rparr>"
  using assms
  by (simp add: get_guest_group_def get_guest_group_body_def or_404_def Let_def)

text \<open>
  C2. Claimed: for a guest id that is not in the store, \<^verbatim>\<open>get_guest_group\<close> fails
  with a 404. The route calls \<^verbatim>\<open>first_or_404\<close> inside
  \<^verbatim>\<open>try: .. except Exception\<close>, which catches the \<^verbatim>\<open>NotFound\<close> and answers 500:
  with no guest 99 in the store the response is the 500 body, where the sibling route
  \<^verbatim>\<open>agradecimento_personalizado\<close>, which makes the same lookup with no \<^verbatim>\<open>try\<close>
  around it, aborts with 404.
\<close>

theorem get_guest_group_unknown_guest_is_500:
  "find (\<lambda>g. guest_id g = 99) (guests (store sample_state)) = None
   \<and> fst (get_guest_group 99 sample_state) = Json500
   \<and> fst (agradecimento_personalizado 99 sample_state) = Abort404"
  by (simp add: get_guest_group_def get_guest_group_body_def or_404_def
      agradecimento_personalizado_def sample_state_def sample_db_def ana_def bruno_def
      carla_def)

section \<open>Searching guests\<close>

lemma length_strip_le: "length (strip s) \<le> length s"
proof -
  have "length (strip s) \<le> length (dropWhile isspace s)"
    unfolding strip_def
    using length_dropWhile_le [of isspace "rev (dropWhile isspace s)"] by simp
  also have "\<dots> \<le> length s" by (rule length_dropWhile_le)
  finally show ?thesis .
qed

lemma search_guest_short:
  assumes "length (form_get_default f (py ''name'') []) < 3"
  shows "search_guest b f st = ([], st)"
proof -
  have "length (strip (form_get_default f (py ''name'') [])) < 3"
    using assms length_strip_le [of "form_get_default f (py ''name'') []"] by simp
  then show ?thesis by (simp add: search_guest_def Let_def)
qed

lemma search_guest_at_most_10: "length (fst (search_guest b f st)) \<le> 10"
  by (simp add: search_guest_def Let_def)

lemma search_guest_hits_match:
  assumes "h \<in> set (fst (search_guest b f st))"
  shows "\<exists>g \<in> set (guests (store st)).
           h = search_hit_of (store st) g
           \<and> ilike b (guest_name g) (strip (form_get_default f (py ''name'') []) @ py ''%'')"
proof -
  let ?name = "strip (form_get_default f (py ''name'') [])"
  let ?found = "take 10 (filter (\<lambda>g. ilike b (guest_name g) (?name @ py ''%''))
                   (guests (store st)))"
  from assms have "h \<in> search_hit_of (store st) ` set ?found"
    by (auto simp: search_guest_def Let_def split: if_splits)
  then obtain g where g: "g \<in> set ?found" and h: "h = search_hit_of (store st) g"
    by blast
  from g have "g \<in> set (filter (\<lambda>g. ilike b (guest_name g) (?name @ py ''%''))
                   (guests (store st)))"
    by (rule in_set_takeD)
  with h show ?thesis by auto
qed

lemma like_match_percent: "esc \<noteq> Some 37 \<Longrightarrow> like_match esc [37] s"
  by (induction s) auto

text \<open>
  For a pattern text without \<^verbatim>\<open>%\<close>, \<^verbatim>\<open>_\<close> and the escape character, the pattern
  \<open>p%\<close> matches exactly the strings that start with \<open>p\<close>.
\<close>

lemma like_match_prefix:
  assumes "esc \<noteq> Some 37"
    and "\<forall>c \<in> set p. c \<noteq> 37 \<and> c \<noteq> 95 \<and> Some c \<noteq> esc"
  shows "like_match esc (p @ [37]) s = (take (length p) s = p)"
  using assms(2)
proof (induction p arbitrary: s)
  case Nil
  then show ?case using assms(1) by (simp add: like_match_percent)
next
  case (Cons a p)
  then show ?case by (cases s) auto
qed

text \<open>
  C8. Claimed: for a search string of at least three characters the route returns
  guests whose name starts with the string, letter case aside. The route appends
  \<^verbatim>\<open>%\<close> to the string and uses the result as an \<^verbatim>\<open>ILIKE\<close> pattern without
  escaping it: the search string \<^verbatim>\<open>___\<close> matches every name of at least three
  characters, on either backend, and the three guests of the sample store are returned
  though no name starts with \<^verbatim>\<open>___\<close>.
\<close>

theorem search_guest_wildcards_not_escaped:
  "map hit_name (fst (search_guest sqlite_backend [(py ''name'', py ''___'')] sample_state)) =
     [py ''Ana Silva'', py ''Bruno Silva'', py ''Carla Souza'']
   \<and> map hit_name (fst (search_guest postgres_backend [(py ''name'', py ''___'')] sample_state)) =
     [py ''Ana Silva'', py ''Bruno Silva'', py ''Carla Souza'']
   \<and> take 3 (py ''Ana Silva'') \<noteq> py ''___''"
  by (simp add: search_guest_def form_get_default_def strip_def isspace_def in_ranges_def
      whitespace_ranges_def ilike_def sql_lower_def sqlite_backend_def postgres_backend_def
      sample_state_def sample_db_def ana_def bruno_def carla_def search_hit_of_def
      count_query_def py_def Let_def)

section \<open>Phone numbers stay out of the public responses\<close>

lemma filter_forget_phone:
  assumes "\<And>g. P (forget_phone g) = P g"
  shows "map forget_phone (filter P gs) = filter P (map forget_phone gs)"
  using assms by (induction gs) auto

lemma find_forget_phone:
  assumes "\<And>g. P (forget_phone g) = P g"
  shows "map_option forget_phone (find P gs) = find P (map forget_phone gs)"
  using assms by (induction gs) auto

lemma search_hit_of_forget_phone: "search_hit_of d (forget_phone g) = search_hit_of d g"
  by (simp add: search_hit_of_def forget_phone_def guest_group_of_def)

lemma search_hit_of_groups:
  "groups d = groups d' \<Longrightarrow> search_hit_of d g = search_hit_of d' g"
  by (simp add: search_hit_of_def guest_group_of_def split: option.splits)

lemma group_member_of_forget_phone: "group_member_of (forget_phone g) = group_member_of g"
  by (simp add: group_member_of_def forget_phone_def)

lemma search_guest_hits_forget_phone:
  "fst (search_guest b f st) =
     (let name = strip (form_get_default f (py ''name'') [])
      in if name = [] \<or> length name < 3 then []
         else map (search_hit_of (store st))
                (take 10 (filter (\<lambda>g. ilike b (guest_name g) (name @ py ''%''))
                            (map forget_phone (guests (store st))))))"
proof -
  have "map (search_hit_of (store st)) (take 10 (filter P (guests (store st)))) =
        map (search_hit_of (store st)) (take 10 (filter P (map forget_phone (guests (store st)))))"
    if "\<And>g. P (forget_phone g) = P g" for P
  proof -
    have e: "map forget_phone (take 10 (filter P (guests (store st)))) =
             take 10 (filter P (map forget_phone (guests (store st))))"
      by (simp add: take_map [symmetric] filter_forget_phone [of P, OF that])
    have "map (search_hit_of (store st)) (take 10 (filter P (guests (store st)))) =
          map (search_hit_of (store st))
            (map forget_phone (take 10 (filter P (guests (store st)))))"
      by (simp add: search_hit_of_forget_phone comp_def)
    then show ?thesis unfolding e .
  qed
  then show ?thesis
    by (simp add: search_guest_def Let_def forget_phone_def)
qed

lemma get_guest_group_forget_phone:
  "fst (get_guest_group gid st) =
     (case find (\<lambda>g. guest_id g = gid) (map forget_phone (guests (store st))) of
        None \<Rightarrow> Json500
      | Some g \<Rightarrow>
          Json200 \<lparr>selected_guest_name = guest_name g,
                   members = map group_member_of
                     (if truthy_int (guest_group_id g)
                      then filter (\<lambda>x. guest_group_id x = guest_group_id g)
                             (map forget_phone (guests (store st)))
                      else [g])\<rparr>)"
proof (cases "find (\<lambda>g. guest_id g = gid) (guests (store st))")
  case None
  have "find (\<lambda>g. guest_id g = gid) (map forget_phone (guests (store st))) =
        map_option forget_phone (find (\<lambda>g. guest_id g = gid) (guests (store st)))"
    by (rule find_forget_phone [symmetric]) (simp add: forget_phone_def)
  with None show ?thesis
    by (simp add: get_guest_group_def get_guest_group_body_def or_404_def)
next
  case (Some g)
  have f: "find (\<lambda>g. guest_id g = gid) (map forget_phone (guests (store st))) =
        Some (forget_phone g)"
    using find_forget_phone [of "\<lambda>g. guest_id g = gid" "guests (store st)"] Some
    by (simp add: forget_phone_def)
  have m: "map group_member_of (filter (\<lambda>x. guest_group_id x = k) (guests (store st))) =
           map group_member_of (filter (\<lambda>x. guest_group_id x = k)
              (map forget_phone (guests (store st))))" for k
  proof -
    have "map group_member_of (filter (\<lambda>x. guest_group_id x = k) (guests (store st))) =
          map group_member_of
            (map forget_phone (filter (\<lambda>x. guest_group_id x = k) (guests (store st))))"
      by (simp add: group_member_of_forget_phone)
    also have "map forget_phone (filter (\<lambda>x. guest_group_id x = k) (guests (store st))) =
               filter (\<lambda>x. guest_group_id x = k) (map forget_phone (guests (store st)))"
      by (rule filter_forget_phone) (simp add: forget_phone_def)
    finally show ?thesis .
  qed
  have g: "guest_name (forget_phone g) = guest_name g"
    "guest_group_id (forget_phone g) = guest_group_id g"
    by (simp_all add: forget_phone_def)
  show ?thesis
    using Some m [of "guest_group_id g"]
    by (simp add: get_guest_group_known_guest f g group_member_of_forget_phone)
qed

text \<open>
  C9. Two store states whose guest tables agree once the phone numbers are ignored, and
  whose groups are the same, get the same response from \<^verbatim>\<open>search_guest\<close> for every
  form and from \<^verbatim>\<open>get_guest_group\<close> for every guest id. The responses hold the id,
  the name, the RSVP status and (for the search) the group name of a guest and nothing
  else of it.
\<close>

theorem public_responses_ignore_phone:
  assumes "map forget_phone (guests (store s1)) = map forget_phone (guests (store s2))"
    and "groups (store s1) = groups (store s2)"
  shows "fst (search_guest b f s1) = fst (search_guest b f s2)
         \<and> fst (get_guest_group gid s1) = fst (get_guest_group gid s2)"
proof -
  have "search_hit_of (store s1) = search_hit_of (store s2)"
    using assms(2) by (auto intro: search_hit_of_groups)
  then have "fst (search_guest b f s1) = fst (search_guest b f s2)"
    using assms(1) by (simp add: search_guest_hits_forget_phone Let_def)
  moreover have "fst (get_guest_group gid s1) = fst (get_guest_group gid s2)"
    unfolding get_guest_group_forget_phone assms(1) by (rule refl)
  ultimately show ?thesis by simp
qed

theorem public_responses_ignore_phone_witness:
  "fst (search_guest sqlite_backend [(py ''name'', py ''ana'')] sample_state) =
     fst (search_guest sqlite_backend [(py ''name'', py ''ana'')]
            (sample_state\<lparr>store := sample_db\<lparr>guests :=
               [ana\<lparr>guest_phone := Some (py ''+5521888880000'')\<rparr>, bruno, carla]\<rparr>\<rparr>))
   \<and> fst (get_guest_group 1 sample_state) =
     fst (get_guest_group 1
            (sample_state\<lparr>store := sample_db\<lparr>guests :=
               [ana\<lparr>guest_phone := Some (py ''+5521888880000'')\<rparr>, bruno, carla]\<rparr>\<rparr>))
   \<and> map hit_name (fst (search_guest sqlite_backend [(py ''name'', py ''ana'')] sample_state)) =
     [py ''Ana Silva'']"
proof -
  let ?s2 = "sample_state\<lparr>store := sample_db\<lparr>guests :=
               [ana\<lparr>guest_phone := Some (py ''+5521888880000'')\<rparr>, bruno, carla]\<rparr>\<rparr>"
  have a: "map forget_phone (guests (store sample_state)) = map forget_phone (guests (store ?s2))"
    by (simp add: sample_state_def sample_db_def forget_phone_def)
  have g: "groups (store sample_state) = groups (store ?s2)"
    by (simp add: sample_state_def sample_db_def)
  have hit: "map hit_name (fst (search_guest sqlite_backend [(py ''name'', py ''ana'')]
               sample_state)) = [py ''Ana Silva'']"
    by (simp add: search_guest_def form_get_default_def strip_def isspace_def in_ranges_def
      whitespace_ranges_def ilike_def sql_lower_def sqlite_backend_def
      sample_state_def sample_db_def ana_def bruno_def carla_def search_hit_of_def
      count_query_def py_def Let_def)
  from public_responses_ignore_phone [OF a g, of sqlite_backend "[(py ''name'', py ''ana'')]" 1] hit
  show ?thesis by simp
qed

section \<open>Confirming attendance\<close>

lemma collect_updates_pairs:
  "collect_updates f gids updates n =
     (case parsed_pairs (filter (\<lambda>p. valid_status (snd p)) (submitted_pairs_of f gids)) of
        None \<Rightarrow> Inl ValueError
      | Some new \<Rightarrow> Inr (updates @ new, n + length new))"
proof (induction gids arbitrary: updates n)
  case Nil
  then show ?case by (simp add: submitted_pairs_of_def parsed_pairs_def)
next
  case (Cons gid rest)
  have unfold: "submitted_pairs_of f (gid # rest) =
      (case form_get f (py ''rsvp_'' @ gid) of None \<Rightarrow> [] | Some s \<Rightarrow> [(gid, s)])
      @ submitted_pairs_of f rest"
    by (simp add: submitted_pairs_of_def)
  show ?case
  proof (cases "form_get f (py ''rsvp_'' @ gid)")
    case None
    then show ?thesis using Cons.IH unfold by simp
  next
    case (Some s)
    show ?thesis
    proof (cases "valid_status s")
      case False
      then show ?thesis using Some Cons.IH unfold by simp
    next
      case True
      show ?thesis
      proof (cases "py_int gid")
        case None
        then show ?thesis using Some True unfold by (simp add: parsed_pairs_def)
      next
        case (Some i)
        then show ?thesis
          using \<open>form_get f (py ''rsvp_'' @ gid) = Some s\<close> True unfold
            Cons.IH [of "updates @ [(i, s)]" "Suc n"]
          by (simp add: parsed_pairs_def split: option.splits)
      qed
    qed
  qed
qed

lemma find_snoc:
  "find P (xs @ [y]) = (case find P xs of None \<Rightarrow> (if P y then Some y else None) | Some x \<Rightarrow> Some x)"
  by (induction xs) auto

lemma status_after_Cons:
  "status_after (u # us) g =
     status_after us (if guest_id g = fst u then g\<lparr>guest_rsvp_status := Some (snd u)\<rparr> else g)"
  by (auto simp: status_after_def find_snoc split: option.splits)

lemma fold_update_row: "fold update_row ups gs = map (status_after ups) gs"
proof (induction ups arbitrary: gs)
  case Nil
  then show ?case by (simp add: status_after_def)
next
  case (Cons u us)
  then show ?case by (simp add: update_row_def status_after_Cons comp_def)
qed

lemma find_SomeD: "find P xs = Some x \<Longrightarrow> x \<in> set xs \<and> P x"
  by (induction xs) (auto split: if_splits)

lemma status_after_unnamed:
  "guest_id g \<notin> fst ` set ups \<Longrightarrow> status_after ups g = g"
proof -
  assume "guest_id g \<notin> fst ` set ups"
  then have "find (\<lambda>u. fst u = guest_id g) (rev ups) = None"
    by (force simp: find_None_iff)
  then show ?thesis by (simp add: status_after_def)
qed

lemma status_after_named:
  assumes "guest_id g \<in> fst ` set ups"
  shows "\<exists>s. (guest_id g, s) \<in> set ups \<and> status_after ups g = g\<lparr>guest_rsvp_status := Some s\<rparr>"
proof -
  from assms have "find (\<lambda>u. fst u = guest_id g) (rev ups) \<noteq> None"
    by (auto simp: find_None_iff)
  then obtain u where u: "find (\<lambda>u. fst u = guest_id g) (rev ups) = Some u" by blast
  then have "u \<in> set ups" and "fst u = guest_id g"
    using find_SomeD [of "\<lambda>u. fst u = guest_id g" "rev ups" u] by simp_all
  then have "(guest_id g, snd u) \<in> set ups" by (metis prod.collapse)
  with u show ?thesis by (auto simp: status_after_def)
qed

lemma confirm_rsvp_cases:
  "confirm_rsvp b f st =
     (if form_getlist f (py ''guest_ids'') = [] then (Rsvp, [(Danger, NoGuestSelected)], st)
      else if valid_pairs f = [] then (Rsvp, [(Warning, NothingProcessed)], st)
      else
        (case parsed_pairs (valid_pairs f) of
           None \<Rightarrow> (Rsvp, [(Danger, RsvpError)], st)
         | Some ups \<Rightarrow>
             if bulk_update_mappings b ups (guests (store st)) \<noteq> Inl StaleDataError
                \<and> commit_accepts b
                    ((store st)\<lparr>guests := map (status_after ups) (guests (store st))\<rparr>)
             then (Rsvp, [(Success, RsvpRegistered (length (valid_pairs f)))],
                   st\<lparr>store := (store st)\<lparr>guests :=
                                   map (status_after ups) (guests (store st))\<rparr>\<rparr>)
             else (Rsvp, [(Danger, RsvpError)], st)))"
proof -
  have len: "parsed_pairs ps = Some ups \<Longrightarrow> length ups = length ps" for ps ups
  proof (induction ps arbitrary: ups)
    case Nil
    then show ?case by (simp add: parsed_pairs_def)
  next
    case (Cons p ps)
    then show ?case by (auto simp: parsed_pairs_def split: option.splits)
  qed
  have nil: "parsed_pairs ps = Some [] \<Longrightarrow> ps = []" for ps
    using len [of ps "[]"] by simp
  have pnil: "parsed_pairs [] = Some []" by (simp add: parsed_pairs_def)
  show ?thesis
  proof (cases "parsed_pairs (valid_pairs f)")
    case None
    then have "valid_pairs f \<noteq> []" using pnil by auto
    with None show ?thesis
      by (simp add: confirm_rsvp_def Let_def collect_updates_pairs valid_pairs_def)
  next
    case (Some ups)
    show ?thesis
    proof (cases "ups = []")
      case True
      with Some have "valid_pairs f = []" using nil by simp
      with Some True show ?thesis
        by (simp add: confirm_rsvp_def Let_def collect_updates_pairs valid_pairs_def)
    next
      case False
      with Some have ne: "valid_pairs f \<noteq> []" using pnil by auto
      have l: "length ups = length (valid_pairs f)" using Some by (rule len)
      have guests_nonempty: "form_getlist f (py ''guest_ids'') \<noteq> []"
        using ne by (auto simp: valid_pairs_def submitted_pairs_of_def)
      show ?thesis
        using Some False ne l guests_nonempty
        by (simp add: confirm_rsvp_def Let_def collect_updates_pairs valid_pairs_def
            bulk_update_mappings_def fold_update_row commit_def)
    qed
  qed
qed

text \<open>
  C5, as stated, fails on the empty submission: with no guest id submitted there is no
  valid update, and the route answers with the error \<^verbatim>\<open>Nenhum convidado selecionado.\<close>
  (category \<^verbatim>\<open>danger\<close>), not with the warning that nothing was processed.
\<close>

theorem confirm_rsvp_empty_submission:
  "valid_pairs [] = []
   \<and> fst (snd (confirm_rsvp sqlite_backend [] sample_state)) = [(Danger, NoGuestSelected)]
   \<and> fst (snd (confirm_rsvp sqlite_backend [] sample_state)) \<noteq> [(Warning, NothingProcessed)]"
  by (simp add: confirm_rsvp_def form_getlist_def valid_pairs_def submitted_pairs_of_def)

text \<open>
  C5, amended. For every submission:
  \<^item> with no guest id at all, the route refuses with the error that no guest was
    selected, and nothing changes;
  \<^item> with guest ids but no valid pair (every status missing or outside
    \<^verbatim>\<open>confirmado\<close>, \<^verbatim>\<open>nao_confirmado\<close>), it flashes the warning that nothing was
    processed, and nothing changes: the other pairs are dropped without an error;
  \<^item> with valid pairs whose guest ids are integers, a batch the store does not refuse
    and a commit it accepts, every guest row named by a valid pair gets the status of
    the last such pair, every other row is as it was, and the count reported is the
    number of valid pairs;
  \<^item> with valid pairs and a guest id that is not an integer, a refused batch or a
    refused commit, the route reports an error and no row changes.
\<close>

theorem confirm_rsvp_batch:
  "(form_getlist f (py ''guest_ids'') = [] \<longrightarrow>
      confirm_rsvp b f st = (Rsvp, [(Danger, NoGuestSelected)], st))
   \<and> (form_getlist f (py ''guest_ids'') \<noteq> [] \<and> valid_pairs f = [] \<longrightarrow>
      confirm_rsvp b f st = (Rsvp, [(Warning, NothingProcessed)], st))
   \<and> (valid_pairs f \<noteq> [] \<and> parsed_pairs (valid_pairs f) = Some ups
        \<and> bulk_update_mappings b ups (guests (store st)) \<noteq> Inl StaleDataError
        \<and> commit_accepts b
             ((store st)\<lparr>guests := map (status_after ups) (guests (store st))\<rparr>) \<longrightarrow>
      confirm_rsvp b f st =
        (Rsvp, [(Success, RsvpRegistered (length (valid_pairs f)))],
         st\<lparr>store := (store st)\<lparr>guests := map (status_after ups) (guests (store st))\<rparr>\<rparr>))
   \<and> (valid_pairs f \<noteq> []
        \<and> (parsed_pairs (valid_pairs f) = None
             \<or> parsed_pairs (valid_pairs f) = Some ups
                \<and> (bulk_update_mappings b ups (guests (store st)) = Inl StaleDataError
                     \<or> \<not> commit_accepts b
                          ((store st)\<lparr>guests :=
                             map (status_after ups) (guests (store st))\<rparr>))) \<longrightarrow>
      confirm_rsvp b f st = (Rsvp, [(Danger, RsvpError)], st))"
proof -
  have nonempty: "valid_pairs f \<noteq> [] \<Longrightarrow> form_getlist f (py ''guest_ids'') \<noteq> []"
    by (auto simp: valid_pairs_def submitted_pairs_of_def)
  show ?thesis
    using nonempty by (auto simp: confirm_rsvp_cases)
qed

theorem confirm_rsvp_batch_witness:
  "confirm_rsvp sqlite_backend rsvp_form sample_state =
     (Rsvp, [(Success, RsvpRegistered 1)],
      sample_state\<lparr>store := sample_db\<lparr>guests :=
        [ana\<lparr>guest_rsvp_status := Some (py ''confirmado'')\<rparr>, bruno, carla]\<rparr>\<rparr>)
   \<and> confirm_rsvp sqlite_backend bogus_form sample_state =
     (Rsvp, [(Warning, NothingProcessed)], sample_state)
   \<and> confirm_rsvp sqlite_backend malformed_id_form sample_state =
     (Rsvp, [(Danger, RsvpError)], sample_state)
   \<and> confirm_rsvp sqlite_backend unknown_id_form sample_state =
     (Rsvp, [(Danger, RsvpError)], sample_state)
   \<and> confirm_rsvp sqlite_backend [] sample_state =
     (Rsvp, [(Danger, NoGuestSelected)], sample_state)"
proof -
  note int_eval = py_int_def parse_unsigned_def decimal_value_def decimal_ranges_def
    int_space_def isspace_def in_ranges_def whitespace_ranges_def
  note form_eval = valid_pairs_def submitted_pairs_of_def form_getlist_def form_get_def
    valid_status_def py_def
  have v1: "valid_pairs rsvp_form = [(py ''1'', py ''confirmado'')]"
    by (simp add: rsvp_form_def form_eval)
  have g1: "form_getlist bogus_form (py ''guest_ids'') \<noteq> []"
    by (simp add: bogus_form_def form_getlist_def py_def)
  have v2: "valid_pairs bogus_form = []"
    by (simp add: bogus_form_def form_eval)
  have v3: "valid_pairs malformed_id_form = [(py ''x1'', py ''confirmado'')]"
    by (simp add: malformed_id_form_def form_eval)
  have v4: "valid_pairs unknown_id_form = [(py ''99'', py ''nao_confirmado'')]"
    by (simp add: unknown_id_form_def form_eval)
  have p1: "parsed_pairs [(py ''1'', py ''confirmado'')] = Some [(1, py ''confirmado'')]"
    by (simp add: parsed_pairs_def int_eval py_def)
  have p3: "parsed_pairs [(py ''x1'', py ''confirmado'')] = None"
    by (simp add: parsed_pairs_def int_eval py_def)
  have p4: "parsed_pairs [(py ''99'', py ''nao_confirmado'')] = Some [(99, py ''nao_confirmado'')]"
    by (simp add: parsed_pairs_def int_eval py_def)
  have b1: "bulk_update_mappings sqlite_backend [(1, py ''confirmado'')]
              (guests (store sample_state)) \<noteq> Inl StaleDataError"
    by (simp add: bulk_update_mappings_def check_rowcount_def matched_rows_def
        sqlite_backend_def sample_state_def sample_db_def ana_def bruno_def carla_def)
  have b4: "bulk_update_mappings sqlite_backend [(99, py ''nao_confirmado'')]
              (guests (store sample_state)) = Inl StaleDataError"
    by (simp add: bulk_update_mappings_def check_rowcount_def matched_rows_def
        sqlite_backend_def sample_state_def sample_db_def ana_def bruno_def carla_def)
  have c1: "commit_accepts sqlite_backend d" for d
    by (simp add: sqlite_backend_def)
  have s1: "map (status_after [(1, py ''confirmado'')]) (guests (store sample_state)) =
              [ana\<lparr>guest_rsvp_status := Some (py ''confirmado'')\<rparr>, bruno, carla]"
    by (simp add: status_after_def sample_state_def sample_db_def ana_def bruno_def carla_def)
  have r1: "confirm_rsvp sqlite_backend rsvp_form sample_state =
     (Rsvp, [(Success, RsvpRegistered 1)],
      sample_state\<lparr>store := sample_db\<lparr>guests :=
        [ana\<lparr>guest_rsvp_status := Some (py ''confirmado'')\<rparr>, bruno, carla]\<rparr>\<rparr>)"
    using confirm_rsvp_batch [of rsvp_form sqlite_backend sample_state "[(1, py ''confirmado'')]"]
      v1 p1 b1 c1 s1
    by (simp add: sample_state_def)
  have r2: "confirm_rsvp sqlite_backend bogus_form sample_state =
     (Rsvp, [(Warning, NothingProcessed)], sample_state)"
    using confirm_rsvp_batch [of bogus_form sqlite_backend sample_state "[]"] g1 v2 by simp
  have r3: "confirm_rsvp sqlite_backend malformed_id_form sample_state =
     (Rsvp, [(Danger, RsvpError)], sample_state)"
    using confirm_rsvp_batch [of malformed_id_form sqlite_backend sample_state "[]"] v3 p3
    by simp
  have r4: "confirm_rsvp sqlite_backend unknown_id_form sample_state =
     (Rsvp, [(Danger, RsvpError)], sample_state)"
    using confirm_rsvp_batch [of unknown_id_form sqlite_backend sample_state
        "[(99, py ''nao_confirmado'')]"] v4 p4 b4
    by simp
  have r5: "confirm_rsvp sqlite_backend [] sample_state =
     (Rsvp, [(Danger, NoGuestSelected)], sample_state)"
    using confirm_rsvp_batch [of "[]" sqlite_backend sample_state "[]"]
    by (simp add: form_getlist_def)
  from r1 r2 r3 r4 r5 show ?thesis by simp
qed

section \<open>Editing a guest\<close>

lemma find_guest_id: "find (\<lambda>g. guest_id g = gid) gs = Some g \<Longrightarrow> guest_id g = gid \<and> g \<in> set gs"
  using find_SomeD [of "\<lambda>g. guest_id g = gid" gs g] by simp

lemma parsed_pairs_snd: "parsed_pairs ps = Some ups \<Longrightarrow> map snd ups = map snd ps"
proof (induction ps arbitrary: ups)
  case Nil
  then show ?case by (simp add: parsed_pairs_def)
next
  case (Cons p ps)
  then show ?case by (auto simp: parsed_pairs_def split: option.splits)
qed

lemma status_after_valid:
  assumes "\<forall>u \<in> set ups. valid_status (snd u)"
  shows "guest_rsvp_status (status_after ups g) = guest_rsvp_status g
         \<or> (\<exists>s. guest_rsvp_status (status_after ups g) = Some s \<and> valid_status s)"
proof (cases "guest_id g \<in> fst ` set ups")
  case True
  then obtain s where "(guest_id g, s) \<in> set ups"
    and "status_after ups g = g\<lparr>guest_rsvp_status := Some s\<rparr>"
    using status_after_named by blast
  with assms show ?thesis by force
next
  case False
  then show ?thesis by (simp add: status_after_unnamed)
qed

lemma confirm_rsvp_writes_valid_statuses:
  "list_all2 (\<lambda>g g'. guest_rsvp_status g' = guest_rsvp_status g
                      \<or> (\<exists>s. guest_rsvp_status g' = Some s \<and> valid_status s))
     (guests (store st)) (guests (store (snd (snd (confirm_rsvp b f st)))))"
proof -
  have same: "list_all2 (\<lambda>g g'. guest_rsvp_status g' = guest_rsvp_status g
                      \<or> (\<exists>s. guest_rsvp_status g' = Some s \<and> valid_status s)) gs gs" for gs
    by (simp add: list_all2_same)
  have upd: "list_all2 (\<lambda>g g'. guest_rsvp_status g' = guest_rsvp_status g
                      \<or> (\<exists>s. guest_rsvp_status g' = Some s \<and> valid_status s))
               gs (map (status_after ups) gs)"
    if "parsed_pairs (valid_pairs f) = Some ups" for ups gs
  proof -
    have "map snd ups = map snd (valid_pairs f)" using that by (rule parsed_pairs_snd)
    then have img: "snd ` set ups = snd ` set (valid_pairs f)" by (metis set_map)
    have valid: "\<forall>p \<in> set (valid_pairs f). valid_status (snd p)"
      by (simp add: valid_pairs_def)
    have "\<forall>u \<in> set ups. valid_status (snd u)"
    proof
      fix u
      assume "u \<in> set ups"
      then have "snd u \<in> snd ` set (valid_pairs f)" using img by blast
      then obtain p where "p \<in> set (valid_pairs f)" and "snd u = snd p" by blast
      then show "valid_status (snd u)" using valid by simp
    qed
    then show ?thesis
      by (simp add: list_all2_map2 list_all2_same status_after_valid)
  qed
  have "snd (snd (confirm_rsvp b f st)) = st
        \<or> (\<exists>ups. parsed_pairs (valid_pairs f) = Some ups
                  \<and> snd (snd (confirm_rsvp b f st)) =
                      st\<lparr>store := (store st)\<lparr>guests :=
                                      map (status_after ups) (guests (store st))\<rparr>\<rparr>)"
    by (simp add: confirm_rsvp_cases split: option.splits)
  then show ?thesis
  proof
    assume "snd (snd (confirm_rsvp b f st)) = st"
    then show ?thesis using same [of "guests (store st)"] by simp
  next
    assume "\<exists>ups. parsed_pairs (valid_pairs f) = Some ups
                  \<and> snd (snd (confirm_rsvp b f st)) =
                      st\<lparr>store := (store st)\<lparr>guests :=
                                      map (status_after ups) (guests (store st))\<rparr>\<rparr>"
    then obtain ups where "parsed_pairs (valid_pairs f) = Some ups"
      and "snd (snd (confirm_rsvp b f st)) =
             st\<lparr>store := (store st)\<lparr>guests := map (status_after ups) (guests (store st))\<rparr>\<rparr>"
      by blast
    then show ?thesis using upd [of ups "guests (store st)"] by simp
  qed
qed

text \<open>
  C10. A logged-in admin edits an existing guest with a non-blank name (and a group
  field that \<^verbatim>\<open>int()\<close> does not refuse; the store accepts the commit). Then the status
  stored for that guest is the submitted \<^verbatim>\<open>rsvp_status\<close> string, whatever it is, or
  \<^verbatim>\<open>pendente\<close> if the field is absent: nothing restricts it to the three statuses.
  \<^verbatim>\<open>confirm_rsvp\<close>, in contrast, leaves every row's status as it was or sets it to
  \<^verbatim>\<open>confirmado\<close> or \<^verbatim>\<open>nao_confirmado\<close>.
\<close>

theorem edit_guest_stores_any_status:
  assumes admin: "py ''admin_id'' \<in> set sess"
    and present: "find (\<lambda>g. guest_id g = gid) (guests (store st)) = Some g"
    and name: "strip (form_get_default f (py ''name'') []) \<noteq> []"
    and group: "parse_group_id (form_get f (py ''group_id'')) = Inr new_group"
    and edited: "g' = g\<lparr>guest_name := strip (form_get_default f (py ''name'') []),
                         guest_phone := or_none (strip (form_get_default f (py ''phone'') [])),
                         guest_group_id := new_group,
                         guest_rsvp_status :=
                           Some (form_get_default f (py ''rsvp_status'') (py ''pendente''))\<rparr>"
    and accepted: "commit_accepts b ((store st)\<lparr>guests := replace_guest g' (guests (store st))\<rparr>)"
  shows "(\<exists>st'. edit_guest b sess gid f st =
                  (AdminGuests, [(Success, GuestUpdated (guest_name g'))], st')
               \<and> guests (store st') = replace_guest g' (guests (store st))
               \<and> g' \<in> set (guests (store st'))
               \<and> (\<forall>x \<in> set (guests (store st')). guest_id x = gid \<longrightarrow>
                     guest_rsvp_status x =
                       Some (form_get_default f (py ''rsvp_status'') (py ''pendente''))))
         \<and> list_all2 (\<lambda>x y. guest_rsvp_status y = guest_rsvp_status x
                             \<or> (\<exists>s. guest_rsvp_status y = Some s \<and> valid_status s))
             (guests (store st)) (guests (store (snd (snd (confirm_rsvp b f2 st)))))"
proof -
  have gid: "guest_id g = gid" and mem: "g \<in> set (guests (store st))"
    using find_guest_id [OF present] by simp_all
  have gid': "guest_id g' = gid" using gid edited by simp
  have run: "edit_guest b sess gid f st =
      (AdminGuests, [(Success, GuestUpdated (guest_name g'))],
       (count_query st)\<lparr>store := (store st)\<lparr>guests := replace_guest g' (guests (store st))\<rparr>\<rparr>)"
    using admin present name group accepted edited
    by (simp add: edit_guest_def admin_required_optimized_def or_404_def Let_def commit_def)
  have inside: "g' \<in> set (replace_guest g' (guests (store st)))"
    using mem gid gid' by (force simp: replace_guest_def)
  have all: "\<forall>x \<in> set (replace_guest g' (guests (store st))). guest_id x = gid \<longrightarrow>
               guest_rsvp_status x =
                 Some (form_get_default f (py ''rsvp_status'') (py ''pendente''))"
    using gid' edited by (auto simp: replace_guest_def)
  show ?thesis
    using run inside all confirm_rsvp_writes_valid_statuses [of st b f2]
    by (simp add: count_query_def)
qed

theorem edit_guest_stores_any_status_witness:
  "(\<exists>st'. edit_guest sqlite_backend admin_session 1 edit_form sample_state =
             (AdminGuests, [(Success, GuestUpdated (py ''Ana Silva''))], st')
          \<and> guests (store st') =
              [ana\<lparr>guest_phone := None, guest_group_id := None,
                   guest_rsvp_status := Some (py ''talvez'')\<rparr>, bruno, carla])
   \<and> py ''talvez'' \<notin> set rsvp_statuses
   \<and> list_all2 (\<lambda>x y. guest_rsvp_status y = guest_rsvp_status x
                        \<or> (\<exists>s. guest_rsvp_status y = Some s \<and> valid_status s))
        (guests (store sample_state))
        (guests (store (snd (snd (confirm_rsvp sqlite_backend rsvp_form sample_state)))))"
proof -
  note strip_eval = strip_def isspace_def in_ranges_def whitespace_ranges_def
  let ?g' = "ana\<lparr>guest_phone := None, guest_group_id := None,
                  guest_rsvp_status := Some (py ''talvez'')\<rparr>"
  have admin: "py ''admin_id'' \<in> set admin_session"
    by (simp add: admin_session_def)
  have present: "find (\<lambda>g. guest_id g = 1) (guests (store sample_state)) = Some ana"
    by (simp add: sample_state_def sample_db_def ana_def)
  have nm: "strip (form_get_default edit_form (py ''name'') []) = py ''Ana Silva''"
    by (simp add: edit_form_def form_get_default_def strip_eval py_def)
  have name: "strip (form_get_default edit_form (py ''name'') []) \<noteq> []"
    unfolding nm by (simp add: py_def)
  have group: "parse_group_id (form_get edit_form (py ''group_id'')) = Inr None"
    by (simp add: edit_form_def form_get_def parse_group_id_def py_def)
  have edited: "?g' = ana\<lparr>guest_name := strip (form_get_default edit_form (py ''name'') []),
                 guest_phone := or_none (strip (form_get_default edit_form (py ''phone'') [])),
                 guest_group_id := None,
                 guest_rsvp_status :=
                   Some (form_get_default edit_form (py ''rsvp_status'') (py ''pendente''))\<rparr>"
    unfolding nm
    by (simp add: edit_form_def form_get_default_def strip_eval or_none_def py_def ana_def)
  have accepted: "commit_accepts sqlite_backend
      ((store sample_state)\<lparr>guests := replace_guest ?g' (guests (store sample_state))\<rparr>)"
    by (simp add: sqlite_backend_def)
  have table: "replace_guest ?g' (guests (store sample_state)) = [?g', bruno, carla]"
    by (simp add: replace_guest_def sample_state_def sample_db_def ana_def bruno_def carla_def)
  have outside: "py ''talvez'' \<notin> set rsvp_statuses"
    by (simp add: rsvp_statuses_def py_def)
  have name': "guest_name ?g' = py ''Ana Silva''" by (simp add: ana_def)
  from edit_guest_stores_any_status
         [OF admin present name group edited accepted, of rsvp_form] table outside name'
  show ?thesis by auto
qed

section \<open>Deleting a group\<close>

lemma find_group_id: "find (\<lambda>gr. group_id gr = gid) grs = Some gr \<Longrightarrow> group_id gr = gid"
  by (induction grs) (auto split: if_splits)

text \<open>
  C7. An admin deletes a group that exists. If at least one guest refers to it, the
  route flashes the conflict (with the group's name and the number of its guests) and
  the store is unchanged, group row and guest rows alike. If no guest refers to it and
  the store accepts the commit, the route reports success, the group's row is gone and
  the guest rows are unchanged.
\<close>

theorem delete_group_conflict_or_removed:
  assumes admin: "py ''admin_id'' \<in> set sess"
    and present: "find (\<lambda>gr. group_id gr = gid) (groups (store st)) = Some gr"
  shows
    "((\<exists>g \<in> set (guests (store st)). guest_group_id g = Some gid) \<longrightarrow>
        (\<exists>n st'. delete_group b sess gid st =
                    (AdminGroups, [(Danger, GroupHasGuests (group_name gr) n)], st')
                  \<and> 0 < n \<and> store st' = store st))
     \<and> ((\<forall>g \<in> set (guests (store st)). guest_group_id g \<noteq> Some gid) \<longrightarrow>
          commit_accepts b ((store st)\<lparr>groups :=
             filter (\<lambda>x. group_id x \<noteq> gid) (groups (store st))\<rparr>) \<longrightarrow>
        (\<exists>st'. delete_group b sess gid st =
                   (AdminGroups, [(Success, GroupRemoved (group_name gr))], st')
               \<and> groups (store st') = filter (\<lambda>x. group_id x \<noteq> gid) (groups (store st))
               \<and> guests (store st') = guests (store st)
               \<and> find (\<lambda>x. group_id x = gid) (groups (store st')) = None))"
proof (intro conjI impI)
  assume "\<exists>g \<in> set (guests (store st)). guest_group_id g = Some gid"
  then have "filter (\<lambda>g. guest_group_id g = Some gid) (guests (store st)) \<noteq> []"
    by (simp add: filter_empty_conv)
  then show "\<exists>n st'. delete_group b sess gid st =
                (AdminGroups, [(Danger, GroupHasGuests (group_name gr) n)], st')
              \<and> 0 < n \<and> store st' = store st"
    using admin present
    by (simp add: delete_group_def admin_required_optimized_def or_404_def Let_def
        count_query_def)
next
  assume none: "\<forall>g \<in> set (guests (store st)). guest_group_id g \<noteq> Some gid"
    and ok: "commit_accepts b ((store st)\<lparr>groups :=
               filter (\<lambda>x. group_id x \<noteq> gid) (groups (store st))\<rparr>)"
  have empty: "filter (\<lambda>g. guest_group_id g = Some gid) (guests (store st)) = []"
    using none by (simp add: filter_empty_conv)
  have gid: "group_id gr = gid" using present by (rule find_group_id)
  have gone: "find (\<lambda>x. group_id x = gid)
                (filter (\<lambda>x. group_id x \<noteq> gid) (groups (store st))) = None"
    by (simp add: find_None_iff)
  show "\<exists>st'. delete_group b sess gid st =
             (AdminGroups, [(Success, GroupRemoved (group_name gr))], st')
           \<and> groups (store st') = filter (\<lambda>x. group_id x \<noteq> gid) (groups (store st))
           \<and> guests (store st') = guests (store st)
           \<and> find (\<lambda>x. group_id x = gid) (groups (store st')) = None"
    using admin present empty gid ok gone
    by (simp add: delete_group_def admin_required_optimized_def or_404_def Let_def
        count_query_def commit_def)
qed

theorem delete_group_conflict_or_removed_witness:
  "(\<exists>n st'. delete_group sqlite_backend admin_session 1 sample_state =
               (AdminGroups, [(Danger, GroupHasGuests (py ''Silva'') n)], st')
             \<and> 0 < n \<and> store st' = sample_db)
   \<and> (\<exists>st'. delete_group sqlite_backend admin_session 2 sample_state =
               (AdminGroups, [(Success, GroupRemoved (py ''Amigos''))], st')
             \<and> groups (store st') = [familia]
             \<and> guests (store st') = [ana, bruno, carla])"
proof -
  have admin: "py ''admin_id'' \<in> set admin_session"
    by (simp add: admin_session_def)
  have f1: "find (\<lambda>gr. group_id gr = 1) (groups (store sample_state)) = Some familia"
    by (simp add: sample_state_def sample_db_def familia_def)
  have f2: "find (\<lambda>gr. group_id gr = 2) (groups (store sample_state)) = Some amigos"
    by (simp add: sample_state_def sample_db_def familia_def amigos_def)
  have ref1: "\<exists>g \<in> set (guests (store sample_state)). guest_group_id g = Some 1"
    by (simp add: sample_state_def sample_db_def ana_def)
  have ref2: "\<forall>g \<in> set (guests (store sample_state)). guest_group_id g \<noteq> Some 2"
    by (simp add: sample_state_def sample_db_def ana_def bruno_def carla_def)
  have ok: "commit_accepts sqlite_backend ((store sample_state)\<lparr>groups :=
              filter (\<lambda>x. group_id x \<noteq> 2) (groups (store sample_state))\<rparr>)"
    by (simp add: sqlite_backend_def)
  have one: "\<exists>n st'. delete_group sqlite_backend admin_session 1 sample_state =
               (AdminGroups, [(Danger, GroupHasGuests (group_name familia) n)], st')
             \<and> 0 < n \<and> store st' = store sample_state"
    using delete_group_conflict_or_removed [OF admin f1, of sqlite_backend] ref1 by blast
  have two: "\<exists>st'. delete_group sqlite_backend admin_session 2 sample_state =
               (AdminGroups, [(Success, GroupRemoved (group_name amigos))], st')
             \<and> groups (store st') = filter (\<lambda>x. group_id x \<noteq> 2) (groups (store sample_state))
             \<and> guests (store st') = guests (store sample_state)
             \<and> find (\<lambda>x. group_id x = 2) (groups (store st')) = None"
    using delete_group_conflict_or_removed [OF admin f2, of sqlite_backend] ref2 ok by blast
  from one have one': "\<exists>n st'. delete_group sqlite_backend admin_session 1 sample_state =
               (AdminGroups, [(Danger, GroupHasGuests (py ''Silva'') n)], st')
             \<and> 0 < n \<and> store st' = sample_db"
    by (simp add: familia_def sample_state_def)
  from two have two': "\<exists>st'. delete_group sqlite_backend admin_session 2 sample_state =
               (AdminGroups, [(Success, GroupRemoved (py ''Amigos''))], st')
             \<and> groups (store st') = [familia]
             \<and> guests (store st') = [ana, bruno, carla]"
    by (auto simp: amigos_def sample_state_def sample_db_def familia_def)
  from one' two' show ?thesis by blast
qed

section \<open>Updating the venue\<close>

lemma update_venue_run:
  assumes admin: "py ''admin_id'' \<in> set sess"
    and name: "strip (form_get_default f (py ''name'') []) \<noteq> []"
  shows "update_venue b now insert_now sess f st =
     (let prior = (case venues (store st) of
                     [] \<Rightarrow> new_venue [] insert_now
                   | v # rest \<Rightarrow> v);
          venue1 = prior\<lparr>venue_name := strip (form_get_default f (py ''name'') []),
                         venue_address := or_none (strip (form_get_default f (py ''address'') [])),
                         venue_map_link := or_none (strip (form_get_default f (py ''map_link'') [])),
                         venue_description :=
                           or_none (strip (form_get_default f (py ''description'') []))\<rparr>;
          parsed = set_event_fields (strip (form_get_default f (py ''event_date'') []))
                     (strip (form_get_default f (py ''event_time'') [])) venue1;
          rows' = (fst parsed)\<lparr>venue_updated_at := Some now\<rparr> # tl (venues (store st))
      in if commit_accepts b ((store st)\<lparr>venues := rows'\<rparr>)
         then (AdminVenue, snd parsed @ [(Success, VenueUpdated)],
               invalidate_venue_cache ((count_query st)\<lparr>store := (store st)\<lparr>venues := rows'\<rparr>\<rparr>))
         else (AdminVenue, snd parsed @ [(Danger, VenueUpdateError StoreError)], count_query st))"
  using admin name
  by (cases "venues (store st)")
     (simp_all add: update_venue_def admin_required_optimized_def Let_def query_first_def
        commit_def split: prod.splits)

lemma set_event_fields_keeps:
  "set_event_fields d t v = (v', ws) \<Longrightarrow>
     venue_id v' = venue_id v \<and> venue_name v' = venue_name v
     \<and> venue_address v' = venue_address v \<and> venue_map_link v' = venue_map_link v
     \<and> venue_description v' = venue_description v
     \<and> venue_created_at v' = venue_created_at v"
  by (auto simp: set_event_fields_def split: if_splits sum.splits)

lemma set_event_fields_both:
  assumes "d \<noteq> []" and "t \<noteq> []"
  shows "set_event_fields d t v =
           (case strptime_datetime (d @ py '' '' @ t) of
              Inr dt \<Rightarrow> (v\<lparr>venue_event_datetime := Some dt,
                            venue_date := Some (date_part dt),
                            venue_time := Some (time_part dt)\<rparr>, [])
            | Inl e \<Rightarrow> (v, [(Warning, BadDateOrTime)]))"
  using assms by (simp add: set_event_fields_def split: sum.splits)

lemma set_event_fields_date_only:
  assumes "d \<noteq> []" and "t = []"
  shows "set_event_fields d t v =
           (case strptime_date d of
              Inr dd \<Rightarrow> (v\<lparr>venue_date := Some dd\<rparr>, [])
            | Inl e \<Rightarrow> (v, [(Warning, BadDate)]))"
  using assms by (simp add: set_event_fields_def split: sum.splits)

lemma set_event_fields_no_date: "set_event_fields [] t v = (v, [])"
  by (simp add: set_event_fields_def)

text \<open>
  C6. A logged-in admin submits a venue with a non-blank name and the update succeeds
  (the route flashes its success message). Then, with \<open>prior\<close> the first row of the
  table, or the new empty object if the table has no row:
  \<^item> the table holds the updated row \<open>v'\<close> in the place of the first row (an empty
    table gets exactly this one row, otherwise the number of rows is unchanged), with
    the key of \<open>prior\<close>, the submitted name and \<open>updated_at\<close> set;
  \<^item> with a date and a time that parse together, the combined datetime is stored and
    the date and the time field are its date and time;
  \<^item> with a date alone that parses, only the date field is set;
  \<^item> when parsing fails, the matching warning is flashed and the three fields are
    those of \<open>prior\<close>; with no date they are those of \<open>prior\<close> too;
  \<^item> the venue cache is empty and has no fetch time.
\<close>

theorem update_venue_upsert:
  assumes admin: "py ''admin_id'' \<in> set sess"
    and name: "strip (form_get_default f (py ''name'') []) \<noteq> []"
    and event_date: "event_date = strip (form_get_default f (py ''event_date'') [])"
    and event_time: "event_time = strip (form_get_default f (py ''event_time'') [])"
    and prior: "prior = (case venues (store st) of
                           [] \<Rightarrow> new_venue [] insert_now
                         | v # rest \<Rightarrow> v)"
    and run: "update_venue b now insert_now sess f st = (target, flashes, st')"
    and succeeded: "(Success, VenueUpdated) \<in> set flashes"
  shows "\<exists>v'. venues (store st') = v' # tl (venues (store st))
           \<and> length (venues (store st')) = max 1 (length (venues (store st)))
           \<and> venue_id v' = venue_id prior
           \<and> venue_name v' = strip (form_get_default f (py ''name'') [])
           \<and> venue_updated_at v' = Some now
           \<and> (event_date \<noteq> [] \<and> event_time \<noteq> [] \<longrightarrow>
                (case strptime_datetime (event_date @ py '' '' @ event_time) of
                   Inr dt \<Rightarrow>
                     venue_event_datetime v' = Some dt
                     \<and> venue_date v' = Some (date_part dt)
                     \<and> venue_time v' = Some (time_part dt)
                 | Inl e \<Rightarrow>
                     (Warning, BadDateOrTime) \<in> set flashes
                     \<and> venue_event_datetime v' = venue_event_datetime prior
                     \<and> venue_date v' = venue_date prior
                     \<and> venue_time v' = venue_time prior))
           \<and> (event_date \<noteq> [] \<and> event_time = [] \<longrightarrow>
                venue_event_datetime v' = venue_event_datetime prior
                \<and> venue_time v' = venue_time prior
                \<and> (case strptime_date event_date of
                      Inr d \<Rightarrow> venue_date v' = Some d
                    | Inl e \<Rightarrow>
                        (Warning, BadDate) \<in> set flashes
                        \<and> venue_date v' = venue_date prior))
           \<and> (event_date = [] \<longrightarrow>
                venue_event_datetime v' = venue_event_datetime prior
                \<and> venue_date v' = venue_date prior
                \<and> venue_time v' = venue_time prior)
           \<and> venue_cache st' = [] \<and> venue_cache_time st' = None"
proof -
  define venue1 where
    "venue1 = prior\<lparr>venue_name := strip (form_get_default f (py ''name'') []),
                    venue_address := or_none (strip (form_get_default f (py ''address'') [])),
                    venue_map_link := or_none (strip (form_get_default f (py ''map_link'') [])),
                    venue_description :=
                      or_none (strip (form_get_default f (py ''description'') []))\<rparr>"
  define parsed where "parsed = set_event_fields event_date event_time venue1"
  define v' where "v' = (fst parsed)\<lparr>venue_updated_at := Some now\<rparr>"
  define rows' where "rows' = v' # tl (venues (store st))"
  have unfolded: "update_venue b now insert_now sess f st =
      (if commit_accepts b ((store st)\<lparr>venues := rows'\<rparr>)
       then (AdminVenue, snd parsed @ [(Success, VenueUpdated)],
             invalidate_venue_cache ((count_query st)\<lparr>store := (store st)\<lparr>venues := rows'\<rparr>\<rparr>))
       else (AdminVenue, snd parsed @ [(Danger, VenueUpdateError StoreError)], count_query st))"
    unfolding update_venue_run [OF admin name] rows'_def v'_def parsed_def venue1_def
      event_date event_time prior
    by (simp add: Let_def)
  have warnings: "(Success, VenueUpdated) \<notin> set (snd parsed)"
    by (auto simp: parsed_def set_event_fields_def split: if_splits sum.splits)
  have committed: "commit_accepts b ((store st)\<lparr>venues := rows'\<rparr>)"
  proof (rule ccontr)
    assume "\<not> commit_accepts b ((store st)\<lparr>venues := rows'\<rparr>)"
    then have "flashes = snd parsed @ [(Danger, VenueUpdateError StoreError)]"
      using unfolded run by simp
    then show False using succeeded warnings by simp
  qed
  have flashes: "flashes = snd parsed @ [(Success, VenueUpdated)]"
    and st': "st' = invalidate_venue_cache
                      ((count_query st)\<lparr>store := (store st)\<lparr>venues := rows'\<rparr>\<rparr>)"
    using unfolded run committed by simp_all
  have rows: "venues (store st') = v' # tl (venues (store st))"
    by (simp add: st' invalidate_venue_cache_def count_query_def rows'_def)
  have len: "length (venues (store st')) = max 1 (length (venues (store st)))"
    unfolding rows by (cases "venues (store st)") simp_all
  have cache: "venue_cache st' = []" "venue_cache_time st' = None"
    by (simp_all add: st' invalidate_venue_cache_def)
  obtain p ws where p: "parsed = (p, ws)" by (cases parsed)
  have keeps: "venue_id p = venue_id venue1" "venue_name p = venue_name venue1"
    using set_event_fields_keeps [of event_date event_time venue1 p ws] p
    by (simp_all add: parsed_def)
  have ident: "venue_id v' = venue_id prior"
    "venue_name v' = strip (form_get_default f (py ''name'') [])"
    "venue_updated_at v' = Some now"
    using keeps by (simp_all add: v'_def p venue1_def)
  have both: "event_date \<noteq> [] \<and> event_time \<noteq> [] \<longrightarrow>
     (case strptime_datetime (event_date @ py '' '' @ event_time) of
        Inr dt \<Rightarrow>
          venue_event_datetime v' = Some dt
          \<and> venue_date v' = Some (date_part dt)
          \<and> venue_time v' = Some (time_part dt)
      | Inl e \<Rightarrow>
          (Warning, BadDateOrTime) \<in> set flashes
          \<and> venue_event_datetime v' = venue_event_datetime prior
          \<and> venue_date v' = venue_date prior
          \<and> venue_time v' = venue_time prior)"
    by (auto simp: v'_def parsed_def flashes set_event_fields_both venue1_def
        split: sum.splits)
  have date_only: "event_date \<noteq> [] \<and> event_time = [] \<longrightarrow>
     venue_event_datetime v' = venue_event_datetime prior
     \<and> venue_time v' = venue_time prior
     \<and> (case strptime_date event_date of
           Inr d \<Rightarrow> venue_date v' = Some d
         | Inl e \<Rightarrow>
             (Warning, BadDate) \<in> set flashes
             \<and> venue_date v' = venue_date prior)"
    by (auto simp: v'_def parsed_def flashes set_event_fields_date_only venue1_def
        split: sum.splits)
  have no_date: "event_date = [] \<longrightarrow>
     venue_event_datetime v' = venue_event_datetime prior
     \<and> venue_date v' = venue_date prior
     \<and> venue_time v' = venue_time prior"
    by (auto simp: v'_def parsed_def set_event_fields_no_date venue1_def)
  show ?thesis
    using rows len ident both date_only no_date cache by blast
qed

lemma update_venue_succeeds:
  assumes "py ''admin_id'' \<in> set sess"
    and "strip (form_get_default f (py ''name'') []) \<noteq> []"
    and "\<And>d. commit_accepts b d"
  shows "(Success, VenueUpdated) \<in> set (fst (snd (update_venue b now insert_now sess f st)))"
  using assms(3) by (simp add: update_venue_run [OF assms(1) assms(2)] Let_def)

theorem update_venue_upsert_witness:
  "(\<exists>v'. venues (store (snd (snd (update_venue sqlite_backend 1000 1001 admin_session
                                     venue_form sample_state)))) = [v']
         \<and> venue_name v' = py ''X''
         \<and> venue_event_datetime v' = Some event_2025_08_15_16_00
         \<and> venue_date v' = Some \<lparr>year = 2025, month = 8, day = 15\<rparr>
         \<and> venue_time v' = Some \<lparr>hour = 16, minute = 0\<rparr>)
   \<and> (\<exists>v'. venues (store (snd (snd (update_venue sqlite_backend 2000 2001 admin_session
                                       rename_form venue_cached_state)))) = [v']
         \<and> venue_id v' = 1
         \<and> venue_name v' = py ''Y''
         \<and> venue_event_datetime v' = Some event_2025_08_15_16_00)
   \<and> venue_cache (snd (snd (update_venue sqlite_backend 2000 2001 admin_session
                               rename_form venue_cached_state))) = []
   \<and> venue_cache_time (snd (snd (update_venue sqlite_backend 2000 2001 admin_session
                                    rename_form venue_cached_state))) = None
   \<and> (\<exists>v'. venues (store (snd (snd (update_venue sqlite_backend 3000 3001 admin_session
                                       bad_date_form venue_cached_state)))) = [v']
         \<and> venue_date v' = Some \<lparr>year = 2025, month = 8, day = 15\<rparr>
         \<and> (Warning, BadDate) \<in> set (fst (snd (update_venue sqlite_backend 3000 3001
                                                   admin_session bad_date_form
                                                   venue_cached_state))))"
proof -
  note strip_eval = strip_def isspace_def in_ranges_def whitespace_ranges_def
  note strptime_eval = strptime_datetime_def match_datetime_def strptime_date_def
    match_date_def directive_Y_def directive_m_def directive_d_def
    directive_H_def directive_M_def lit_def spaces_plus_def is_char_def in_range_def
    is_decimal_def decimal_value_def decimal_ranges_def isspace_def in_ranges_def
    whitespace_ranges_def py_int_def parse_unsigned_def int_space_def make_date_def
    days_in_month_def is_leap_def
  have admin: "py ''admin_id'' \<in> set admin_session"
    by (simp add: admin_session_def)
  have ok: "commit_accepts sqlite_backend d" for d
    by (simp add: sqlite_backend_def)
  have collapse: "r = (fst r, fst (snd r), snd (snd r))"
    for r :: "endpoint \<times> flash list \<times> app_state"
    by simp

  have n1: "strip (form_get_default venue_form (py ''name'') []) = py ''X''"
    by (simp add: venue_form_def form_get_default_def strip_eval py_def)
  have d1: "py ''2025-08-15'' = strip (form_get_default venue_form (py ''event_date'') [])"
    by (simp add: venue_form_def form_get_default_def strip_eval py_def)
  have t1: "py ''16:00'' = strip (form_get_default venue_form (py ''event_time'') [])"
    by (simp add: venue_form_def form_get_default_def strip_eval py_def)
  have ne1: "strip (form_get_default venue_form (py ''name'') []) \<noteq> []"
    unfolding n1 by (simp add: py_def)
  have p1: "new_venue [] 1001 =
             (case venues (store sample_state) of [] \<Rightarrow> new_venue [] 1001 | v # rest \<Rightarrow> v)"
    by (simp add: sample_state_def sample_db_def)
  have parse1: "strptime_datetime (py ''2025-08-15'' @ py '' '' @ py ''16:00'') =
                  Inr event_2025_08_15_16_00"
    by (simp add: strptime_eval event_2025_08_15_16_00_def py_def)
  have nonempty1: "py ''2025-08-15'' \<noteq> [] \<and> py ''16:00'' \<noteq> []"
    by (simp add: py_def)
  have rows1: "tl (venues (store sample_state)) = []"
    by (simp add: sample_state_def sample_db_def)
  have first: "\<exists>v'. venues (store (snd (snd (update_venue sqlite_backend 1000 1001 admin_session
                                     venue_form sample_state)))) = [v']
         \<and> venue_name v' = py ''X''
         \<and> venue_event_datetime v' = Some event_2025_08_15_16_00
         \<and> venue_date v' = Some \<lparr>year = 2025, month = 8, day = 15\<rparr>
         \<and> venue_time v' = Some \<lparr>hour = 16, minute = 0\<rparr>"
    using update_venue_upsert [OF admin ne1 d1 t1 p1
        collapse [of "update_venue sqlite_backend 1000 1001 admin_session venue_form sample_state"]
        update_venue_succeeds [OF admin ne1 ok]]
      parse1 nonempty1 rows1 n1
    by (auto simp: event_2025_08_15_16_00_def)

  have n2: "strip (form_get_default rename_form (py ''name'') []) = py ''Y''"
    by (simp add: rename_form_def form_get_default_def strip_eval py_def)
  have d2: "[] = strip (form_get_default rename_form (py ''event_date'') [])"
    by (simp add: rename_form_def form_get_default_def strip_eval py_def)
  have t2: "[] = strip (form_get_default rename_form (py ''event_time'') [])"
    by (simp add: rename_form_def form_get_default_def strip_eval py_def)
  have ne2: "strip (form_get_default rename_form (py ''name'') []) \<noteq> []"
    unfolding n2 by (simp add: py_def)
  have p2: "venue_created =
             (case venues (store venue_cached_state) of
                [] \<Rightarrow> new_venue [] i | v # rest \<Rightarrow> v)" for i
    by (simp add: venue_cached_state_def sample_db_def)
  have rows2: "tl (venues (store venue_cached_state)) = []"
    by (simp add: venue_cached_state_def sample_db_def)
  have created: "venue_id venue_created = 1"
    "venue_event_datetime venue_created = Some event_2025_08_15_16_00"
    "venue_date venue_created = Some \<lparr>year = 2025, month = 8, day = 15\<rparr>"
    by (simp_all add: venue_created_def event_2025_08_15_16_00_def)
  have second: "(\<exists>v'. venues (store (snd (snd (update_venue sqlite_backend 2000 2001 admin_session
                                       rename_form venue_cached_state)))) = [v']
         \<and> venue_id v' = 1
         \<and> venue_name v' = py ''Y''
         \<and> venue_event_datetime v' = Some event_2025_08_15_16_00)
     \<and> venue_cache (snd (snd (update_venue sqlite_backend 2000 2001 admin_session
                               rename_form venue_cached_state))) = []
     \<and> venue_cache_time (snd (snd (update_venue sqlite_backend 2000 2001 admin_session
                                    rename_form venue_cached_state))) = None"
    using update_venue_upsert [OF admin ne2 d2 t2 p2
        collapse [of "update_venue sqlite_backend 2000 2001 admin_session rename_form
                        venue_cached_state"]
        update_venue_succeeds [OF admin ne2 ok]]
      rows2 n2 created
    by auto

  have n3: "strip (form_get_default bad_date_form (py ''name'') []) = py ''Z''"
    by (simp add: bad_date_form_def form_get_default_def strip_eval py_def)
  have d3: "py ''2025-02-30'' = strip (form_get_default bad_date_form (py ''event_date'') [])"
    by (simp add: bad_date_form_def form_get_default_def strip_eval py_def)
  have t3: "[] = strip (form_get_default bad_date_form (py ''event_time'') [])"
    by (simp add: bad_date_form_def form_get_default_def strip_eval py_def)
  have ne3: "strip (form_get_default bad_date_form (py ''name'') []) \<noteq> []"
    unfolding n3 by (simp add: py_def)
  have parse3: "strptime_date (py ''2025-02-30'') = Inl ValueError"
    by (simp add: strptime_eval py_def)
  have nonempty3: "py ''2025-02-30'' \<noteq> []"
    by (simp add: py_def)
  have third: "\<exists>v'. venues (store (snd (snd (update_venue sqlite_backend 3000 3001 admin_session
                                       bad_date_form venue_cached_state)))) = [v']
         \<and> venue_date v' = Some \<lparr>year = 2025, month = 8, day = 15\<rparr>
         \<and> (Warning, BadDate) \<in> set (fst (snd (update_venue sqlite_backend 3000 3001
                                                   admin_session bad_date_form
                                                   venue_cached_state)))"
    using update_venue_upsert [OF admin ne3 d3 t3 p2
        collapse [of "update_venue sqlite_backend 3000 3001 admin_session bad_date_form
                        venue_cached_state"]
        update_venue_succeeds [OF admin ne3 ok]]
      rows2 parse3 nonempty3 created
    by auto
  from first second third show ?thesis by blast
qed

section \<open>Message templates\<close>

lemma prepend_prepend: "prepend a (prepend b r) = prepend (a @ b) r"
  by (cases r) (simp_all add: prepend_def)

lemma prepend_Nil: "prepend [] r = r"
  by (cases r) (simp_all add: prepend_def)

lemma format_from_literal:
  assumes "123 \<notin> set s" and "125 \<notin> set s"
  shows "format_from kwargs None (s @ rest) = prepend s (format_from kwargs None rest)"
  using assms
proof (induction s)
  case Nil
  then show ?case by (simp add: prepend_Nil)
next
  case (Cons c s)
  then have c: "c \<noteq> 123" "c \<noteq> 125" and IH:
    "format_from kwargs None (s @ rest) = prepend s (format_from kwargs None rest)"
    by auto
  show ?case
  proof (cases "s @ rest")
    case Nil
    then show ?thesis using c by (simp add: prepend_def)
  next
    case (Cons d cs)
    then have "format_from kwargs None ((c # s) @ rest) =
               prepend [c] (format_from kwargs None (s @ rest))"
      using c by simp
    then show ?thesis using IH by (simp add: prepend_prepend)
  qed
qed

lemma format_from_in_field:
  assumes "125 \<notin> set n"
  shows "format_from kwargs (Some name) (n @ 125 # rest) =
           (case lookup_field kwargs (name @ n) of
              Inl e \<Rightarrow> Inl e
            | Inr v \<Rightarrow> prepend v (format_from kwargs None rest))"
  using assms by (induction n arbitrary: name) auto

lemma lookup_field_plain:
  assumes "wf_piece (Field n)"
  shows "lookup_field kwargs n =
           (case map_of kwargs n of None \<Rightarrow> Inl (KeyError n) | Some v \<Rightarrow> Inr v)"
  using assms by (simp add: lookup_field_def)

lemma format_from_field:
  assumes "wf_piece (Field n)"
  shows "format_from kwargs None ([123] @ n @ [125] @ rest) =
           (case map_of kwargs n of
              None \<Rightarrow> Inl (KeyError n)
            | Some v \<Rightarrow> prepend v (format_from kwargs None rest))"
proof -
  from assms have no: "123 \<notin> set n" "125 \<notin> set n" by simp_all
  obtain d cs where dcs: "n @ 125 # rest = d # cs" by (cases "n @ 125 # rest") auto
  have "d \<noteq> 123" using dcs no by (cases n) auto
  then have "format_from kwargs None (123 # d # cs) = format_from kwargs (Some []) (d # cs)"
    by simp
  then have "format_from kwargs None ([123] @ n @ [125] @ rest) =
             format_from kwargs (Some []) (n @ 125 # rest)"
    using dcs by simp
  also have "\<dots> = (case lookup_field kwargs n of
                      Inl e \<Rightarrow> Inl e
                    | Inr v \<Rightarrow> prepend v (format_from kwargs None rest))"
    using format_from_in_field [OF no(2), of kwargs "[]" rest] by simp
  finally show ?thesis
    by (simp add: lookup_field_plain [OF assms] split: option.splits)
qed

text \<open>
  On a well-formed template, \<^verbatim>\<open>str.format\<close> is the substitution of the placeholders.
\<close>

lemma format_str_unparse:
  "list_all wf_piece ps \<Longrightarrow> format_str (unparse ps) kwargs = substitute kwargs ps"
proof (induction ps)
  case Nil
  then show ?case by (simp add: format_str_def)
next
  case (Cons p ps)
  then have IH: "format_from kwargs None (unparse ps) = substitute kwargs ps"
    by (simp add: format_str_def)
  show ?case
  proof (cases p)
    case (Lit s)
    then show ?thesis
      using Cons.prems IH by (simp add: format_str_def format_from_literal)
  next
    case (Field n)
    then have "wf_piece (Field n)" using Cons.prems by simp
    from format_from_field [OF this, of kwargs "unparse ps"] IH Field
    show ?thesis by (simp add: format_str_def split: option.splits)
  qed
qed

lemma substitute_total:
  "set (placeholders ps) \<subseteq> fst ` set kwargs \<Longrightarrow> \<exists>text. substitute kwargs ps = Inr text"
proof (induction ps)
  case Nil
  then show ?case by simp
next
  case (Cons p ps)
  show ?case
  proof (cases p)
    case (Lit s)
    then show ?thesis using Cons by (auto simp: prepend_def)
  next
    case (Field n)
    then have "n \<in> fst ` set kwargs" using Cons.prems by simp
    then obtain v where "map_of kwargs n = Some v"
      by (metis domD dom_map_of_conv_image_fst)
    then show ?thesis using Field Cons by (auto simp: prepend_def)
  qed
qed

lemma template_confirmation_reminder_pieces:
  "unparse pieces_confirmation_reminder = template_confirmation_reminder"
  "list_all wf_piece pieces_confirmation_reminder"
  "template_confirmation_reminder \<noteq> []"
  by (simp_all add: pieces_confirmation_reminder_def template_confirmation_reminder_def
      py_def is_decimal_def decimal_value_def decimal_ranges_def)

lemma template_thank_you_pieces:
  "unparse pieces_thank_you = template_thank_you"
  "list_all wf_piece pieces_thank_you"
  "template_thank_you \<noteq> []"
  by (simp_all add: pieces_thank_you_def template_thank_you_def
      py_def is_decimal_def decimal_value_def decimal_ranges_def)

lemma template_venue_update_pieces:
  "unparse pieces_venue_update = template_venue_update"
  "list_all wf_piece pieces_venue_update"
  "template_venue_update \<noteq> []"
  by (simp_all add: pieces_venue_update_def template_venue_update_def
      py_def is_decimal_def decimal_value_def decimal_ranges_def)

lemma template_gift_registry_pieces:
  "unparse pieces_gift_registry = template_gift_registry"
  "list_all wf_piece pieces_gift_registry"
  "template_gift_registry \<noteq> []"
  by (simp_all add: pieces_gift_registry_def template_gift_registry_def
      py_def is_decimal_def decimal_value_def decimal_ranges_def)

lemma format_templates:
  "format_str template_confirmation_reminder kwargs = substitute kwargs pieces_confirmation_reminder"
  "format_str template_thank_you kwargs = substitute kwargs pieces_thank_you"
  "format_str template_venue_update kwargs = substitute kwargs pieces_venue_update"
  "format_str template_gift_registry kwargs = substitute kwargs pieces_gift_registry"
  using format_str_unparse [OF template_confirmation_reminder_pieces(2), of kwargs]
    format_str_unparse [OF template_thank_you_pieces(2), of kwargs]
    format_str_unparse [OF template_venue_update_pieces(2), of kwargs]
    format_str_unparse [OF template_gift_registry_pieces(2), of kwargs]
  by (simp_all add: template_confirmation_reminder_pieces(1) template_thank_you_pieces(1)
      template_venue_update_pieces(1) template_gift_registry_pieces(1))

lemma get_wedding_message_cases:
  "get_wedding_message message_type kwargs =
     (case map_of WEDDING_PIECES message_type of
        None \<Rightarrow> Inr []
      | Some ps \<Rightarrow> substitute kwargs ps)"
  by (simp add: get_wedding_message_def WEDDING_MESSAGES_def WEDDING_PIECES_def Let_def
      format_templates template_confirmation_reminder_pieces(3) template_thank_you_pieces(3)
      template_venue_update_pieces(3) template_gift_registry_pieces(3))

text \<open>
  C4, as stated, fails twice. \<^verbatim>\<open>invite\<close>, the first key of the claimed set (and the
  default message type of the route), is not a key of \<^verbatim>\<open>WEDDING_MESSAGES\<close>: the
  result for it is the empty string, whatever the variables. And for a key that has a
  template, a placeholder that the variables do not supply raises \<^verbatim>\<open>KeyError\<close>.
\<close>

theorem get_wedding_message_invite_and_missing_variable:
  "map_of WEDDING_MESSAGES (py ''invite'') = None
   \<and> get_wedding_message (py ''invite'') message_vars = Inr []
   \<and> get_wedding_message (py ''thank_you'') [] = Inl (KeyError (py ''date''))"
  by (simp add: get_wedding_message_cases WEDDING_PIECES_def WEDDING_MESSAGES_def
      pieces_thank_you_def prepend_def py_def)

text \<open>
  C4, amended. The templates are the four entries \<^verbatim>\<open>confirmation_reminder\<close>,
  \<^verbatim>\<open>thank_you\<close>, \<^verbatim>\<open>venue_update\<close> and \<^verbatim>\<open>gift_registry\<close>, each the text of its
  sequence of literal texts and placeholders. For one of these keys the result is the
  template with every placeholder replaced by the variable of its name, which is a
  string (no error) whenever the variables supply every placeholder of the template,
  and \<^verbatim>\<open>KeyError\<close> for the first placeholder they do not supply. For every other key,
  \<^verbatim>\<open>invite\<close> included, the result is the empty string and no error.
\<close>

theorem get_wedding_message_templates:
  "map fst WEDDING_MESSAGES =
     [py ''confirmation_reminder'', py ''thank_you'', py ''venue_update'', py ''gift_registry'']
   \<and> map_of WEDDING_MESSAGES message_type =
       map_option unparse (map_of WEDDING_PIECES message_type)
   \<and> (\<forall>ps. map_of WEDDING_PIECES message_type = Some ps \<longrightarrow>
          get_wedding_message message_type kwargs = substitute kwargs ps
          \<and> (set (placeholders ps) \<subseteq> fst ` set kwargs \<longrightarrow>
               (\<exists>text. get_wedding_message message_type kwargs = Inr text)))
   \<and> (message_type \<notin> set (map fst WEDDING_MESSAGES) \<longrightarrow>
        get_wedding_message message_type kwargs = Inr [])"
proof -
  have keys: "map fst WEDDING_MESSAGES =
     [py ''confirmation_reminder'', py ''thank_you'', py ''venue_update'', py ''gift_registry'']"
    by (simp add: WEDDING_MESSAGES_def)
  have same_keys: "map fst WEDDING_PIECES = map fst WEDDING_MESSAGES"
    by (simp add: WEDDING_MESSAGES_def WEDDING_PIECES_def)
  have texts: "map_of WEDDING_MESSAGES message_type =
       map_option unparse (map_of WEDDING_PIECES message_type)"
    by (simp add: WEDDING_MESSAGES_def WEDDING_PIECES_def
        template_confirmation_reminder_pieces(1) template_thank_you_pieces(1)
        template_venue_update_pieces(1) template_gift_registry_pieces(1))
  have known: "\<forall>ps. map_of WEDDING_PIECES message_type = Some ps \<longrightarrow>
          get_wedding_message message_type kwargs = substitute kwargs ps
          \<and> (set (placeholders ps) \<subseteq> fst ` set kwargs \<longrightarrow>
               (\<exists>text. get_wedding_message message_type kwargs = Inr text))"
    using substitute_total [of _ kwargs] by (simp add: get_wedding_message_cases)
  have unknown: "message_type \<notin> set (map fst WEDDING_MESSAGES) \<longrightarrow>
        get_wedding_message message_type kwargs = Inr []"
  proof
    assume "message_type \<notin> set (map fst WEDDING_MESSAGES)"
    then have "message_type \<notin> fst ` set WEDDING_PIECES"
      using same_keys by (metis set_map)
    then have "map_of WEDDING_PIECES message_type = None"
      by (simp add: map_of_eq_None_iff)
    then show "get_wedding_message message_type kwargs = Inr []"
      by (simp add: get_wedding_message_cases)
  qed
  from keys texts known unknown show ?thesis by blast
qed

theorem get_wedding_message_templates_witness:
  "get_wedding_message (py ''thank_you'') message_vars =
     Inr (
        [10, 129293] @ py '' Muito obrigado(a) por confirmar sua presen'' @ [231] @
        py ''a em nosso casamento!'' @ [10, 10, 128197] @ py '' Data: 15/08/2025'' @
        [10, 9200] @ py '' Hor'' @ [225] @ py ''rio: 16:00'' @ [10, 128205] @
        py '' Local: Quinta X'' @ [10, 10] @
        py ''Estamos ansiosos para celebrar este momento especial com voc'' @ [234] @
        py ''! '' @ [128149, 10])
   \<and> get_wedding_message (py ''gift_registry'') message_vars = Inl (KeyError (py ''gift_link''))
   \<and> get_wedding_message (py ''invite'') message_vars = Inr []
   \<and> get_wedding_message (py ''reminder'') message_vars = Inr []"
proof -
  have k1: "map_of WEDDING_PIECES (py ''thank_you'') = Some pieces_thank_you"
    by (simp add: WEDDING_PIECES_def py_def)
  have k2: "map_of WEDDING_PIECES (py ''gift_registry'') = Some pieces_gift_registry"
    by (simp add: WEDDING_PIECES_def py_def)
  have k3: "py ''invite'' \<notin> set (map fst WEDDING_MESSAGES)"
    by (simp add: WEDDING_MESSAGES_def py_def)
  have k4: "py ''reminder'' \<notin> set (map fst WEDDING_MESSAGES)"
    by (simp add: WEDDING_MESSAGES_def py_def)
  have s1: "substitute message_vars pieces_thank_you =
     Inr (
        [10, 129293] @ py '' Muito obrigado(a) por confirmar sua presen'' @ [231] @
        py ''a em nosso casamento!'' @ [10, 10, 128197] @ py '' Data: 15/08/2025'' @
        [10, 9200] @ py '' Hor'' @ [225] @ py ''rio: 16:00'' @ [10, 128205] @
        py '' Local: Quinta X'' @ [10, 10] @
        py ''Estamos ansiosos para celebrar este momento especial com voc'' @ [234] @
        py ''! '' @ [128149, 10])"
    by (simp add: pieces_thank_you_def message_vars_def prepend_def py_def)
  have s2: "substitute message_vars pieces_gift_registry = Inl (KeyError (py ''gift_link''))"
    by (simp add: pieces_gift_registry_def message_vars_def prepend_def py_def)
  from get_wedding_message_templates [of "py ''thank_you''" message_vars] k1 s1
  have r1: "get_wedding_message (py ''thank_you'') message_vars =
     Inr (
        [10, 129293] @ py '' Muito obrigado(a) por confirmar sua presen'' @ [231] @
        py ''a em nosso casamento!'' @ [10, 10, 128197] @ py '' Data: 15/08/2025'' @
        [10, 9200] @ py '' Hor'' @ [225] @ py ''rio: 16:00'' @ [10, 128205] @
        py '' Local: Quinta X'' @ [10, 10] @
        py ''Estamos ansiosos para celebrar este momento especial com voc'' @ [234] @
        py ''! '' @ [128149, 10])"
    by simp
  from get_wedding_message_templates [of "py ''gift_registry''" message_vars] k2 s2
  have r2: "get_wedding_message (py ''gift_registry'') message_vars =
              Inl (KeyError (py ''gift_link''))"
    by simp
  from get_wedding_message_templates [of "py ''invite''" message_vars] k3
  have r3: "get_wedding_message (py ''invite'') message_vars = Inr []"
    by blast
  from get_wedding_message_templates [of "py ''reminder''" message_vars] k4
  have r4: "get_wedding_message (py ''reminder'') message_vars = Inr []"
    by blast
  from r1 r2 r3 r4 show ?thesis by simp
qed

section \<open>Bulk sending\<close>

lemma send_whatsapp_message_call:
  assumes "truthy_str (TWILIO_ACCOUNT_SID env)" and "truthy_str (TWILIO_AUTH_TOKEN env)"
    and "TWILIO_PHONE_NUMBER env = Some number" and "number \<noteq> []"
  shows "snd (send_whatsapp_message env twilio to_str phone msg) =
           [\<lparr>call_from = py ''whatsapp:'' @ number,
             call_to = py ''whatsapp:'' @ to_str phone, call_body = msg\<rparr>]"
  using assms
  by (simp add: send_whatsapp_message_def truthy_str_def Let_def split: sum.splits prod.splits)

text \<open>
  The dispatcher on its own: it attempts every recipient once, in order, whatever the
  earlier results were, and its counts add up.
\<close>

lemma bulk_loop_calls:
  assumes "truthy_str (TWILIO_ACCOUNT_SID env)" and "truthy_str (TWILIO_AUTH_TOKEN env)"
    and "TWILIO_PHONE_NUMBER env = Some number" and "number \<noteq> []"
  shows "snd (bulk_loop env twilio to_str msg phones acc) =
           snd acc @ map (\<lambda>phone. \<lparr>call_from = py ''whatsapp:'' @ number,
                                     call_to = py ''whatsapp:'' @ to_str phone,
                                     call_body = msg\<rparr>) phones"
proof (induction phones arbitrary: acc)
  case Nil
  then show ?case by simp
next
  case (Cons phone rest)
  have call: "snd (send_whatsapp_message env twilio to_str phone msg) =
           [\<lparr>call_from = py ''whatsapp:'' @ number,
             call_to = py ''whatsapp:'' @ to_str phone, call_body = msg\<rparr>]"
    using assms by (rule send_whatsapp_message_call)
  show ?case
    using call by (simp add: Cons.IH Let_def case_prod_unfold)
qed

lemma bulk_loop_counts:
  "total (fst (bulk_loop env twilio to_str msg phones acc)) = total (fst acc)
   \<and> successful (fst (bulk_loop env twilio to_str msg phones acc))
       + failed (fst (bulk_loop env twilio to_str msg phones acc)) =
     successful (fst acc) + failed (fst acc) + length phones
   \<and> map entry_phone (results (fst (bulk_loop env twilio to_str msg phones acc))) =
     map entry_phone (results (fst acc)) @ phones"
proof (induction phones arbitrary: acc)
  case Nil
  then show ?case by simp
next
  case (Cons phone rest)
  show ?case
    by (simp add: Cons.IH Let_def case_prod_unfold)
qed

lemma send_bulk_whatsapp_messages_tally:
  "total (fst (send_bulk_whatsapp_messages env twilio to_str phones msg)) = length phones
   \<and> successful (fst (send_bulk_whatsapp_messages env twilio to_str phones msg))
       + failed (fst (send_bulk_whatsapp_messages env twilio to_str phones msg)) = length phones
   \<and> map entry_phone (results (fst (send_bulk_whatsapp_messages env twilio to_str phones msg))) =
     phones"
  using bulk_loop_counts [of env twilio to_str msg phones
      "(\<lparr>total = length phones, successful = 0, failed = 0, results = []\<rparr>, [])"]
  by (simp add: send_bulk_whatsapp_messages_def)

lemma send_bulk_whatsapp_messages_calls:
  assumes "truthy_str (TWILIO_ACCOUNT_SID env)" and "truthy_str (TWILIO_AUTH_TOKEN env)"
    and "TWILIO_PHONE_NUMBER env = Some number" and "number \<noteq> []"
  shows "snd (send_bulk_whatsapp_messages env twilio to_str phones msg) =
           map (\<lambda>phone. \<lparr>call_from = py ''whatsapp:'' @ number,
                           call_to = py ''whatsapp:'' @ to_str phone,
                           call_body = msg\<rparr>) phones"
  by (simp add: send_bulk_whatsapp_messages_def bulk_loop_calls [OF assms])

text \<open>The route never flashes the tally, whatever the request.\<close>

lemma send_whatsapp_never_reports_tally:
  "(c, MessagesSent n) \<notin> set (fst (snd (fst (send_whatsapp env twilio now sess f st))))
   \<and> (c, SendErrors n) \<notin> set (fst (snd (fst (send_whatsapp env twilio now sess f st))))
   \<and> (c, SendErrorDetail e) \<notin> set (fst (snd (fst (send_whatsapp env twilio now sess f st))))"
  by (simp add: send_whatsapp_def Let_def unpack3_def bulk_result_keys_def
      split: option.splits prod.splits)

text \<open>
  C1. Claimed: the bulk send returns the tally of attempted, succeeded and failed sends
  with the reasons of the failures, the first of which are shown to the caller. The
  dispatcher computes such a tally, but the route cannot read it: it unpacks the
  returned dict into three names, the dict has four keys, and the \<^verbatim>\<open>ValueError\<close> is
  flashed as a general error after the messages have gone out. For the guests 1, 2
  and 3, guest 3 without a phone and the provider refusing guest 2: guest 3 is
  reported as skipped, two sends are attempted (addressed to the text of the
  \<^verbatim>\<open>Guest\<close> objects, not to their phone numbers), the dispatcher's tally is 2
  attempted, 1 succeeded, 1 failed, and the caller sees neither the counts nor the
  provider's reason. With a predefined message type the route fails before any send,
  on its call of \<^verbatim>\<open>get_wedding_message\<close>.
\<close>

theorem send_whatsapp_loses_the_tally:
  "send_whatsapp sample_env sample_twilio 0 admin_session send_form sample_state =
     ((AdminWhatsapp,
       [(Warning, GuestsWithoutPhone [py ''Carla Souza'']),
        (Danger, GeneralSendError ValueError)],
       sample_state\<lparr>query_count := 1\<rparr>),
      [\<lparr>call_from = py ''whatsapp:+14155238886'', call_to = py ''whatsapp:<Guest 1>'',
        call_body = py ''Oi''\<rparr>,
       \<lparr>call_from = py ''whatsapp:+14155238886'', call_to = py ''whatsapp:<Guest 2>'',
        call_body = py ''Oi''\<rparr>])
   \<and> fst (send_bulk_whatsapp_messages sample_env sample_twilio guest_repr [ana, bruno]
            (py ''Oi'')) =
     \<lparr>total = 2, successful = 1, failed = 1,
      results = [\<lparr>entry_phone = ana, entry_success = True, entry_error = None\<rparr>,
                 \<lparr>entry_phone = bruno, entry_success = False,
                  entry_error = Some (py ''Unable to create record'')\<rparr>]\<rparr>
   \<and> fst (snd (fst (send_whatsapp sample_env sample_twilio 0 admin_session
                      send_template_form sample_state))) =
     [(Warning, GuestsWithoutPhone [py ''Carla Souza'']),
      (Danger, GeneralSendError TypeError)]
   \<and> snd (send_whatsapp sample_env sample_twilio 0 admin_session send_template_form
            sample_state) = []"
proof -
  note evaluate = send_whatsapp_def form_get_default_def form_getlist_def
    strip_def isspace_def in_ranges_def whitespace_ranges_def
    py_int_def parse_unsigned_def decimal_value_def decimal_ranges_def int_space_def
    sample_state_def sample_db_def ana_def bruno_def carla_def sample_env_def
    sample_twilio_def admin_session_def truthy_str_def
    send_bulk_whatsapp_messages_def send_whatsapp_message_def guest_repr_def str_int_def
    result_success_def result_error_def unpack3_def bulk_result_keys_def count_query_def
    get_cached_venue_def query_first_def Let_def py_def
  have first: "send_whatsapp sample_env sample_twilio 0 admin_session send_form sample_state =
     ((AdminWhatsapp,
       [(Warning, GuestsWithoutPhone [py ''Carla Souza'']),
        (Danger, GeneralSendError ValueError)],
       sample_state\<lparr>query_count := 1\<rparr>),
      [\<lparr>call_from = py ''whatsapp:+14155238886'', call_to = py ''whatsapp:<Guest 1>'',
        call_body = py ''Oi''\<rparr>,
       \<lparr>call_from = py ''whatsapp:+14155238886'', call_to = py ''whatsapp:<Guest 2>'',
        call_body = py ''Oi''\<rparr>])"
    by (simp add: evaluate send_form_def)
  have bulk: "fst (send_bulk_whatsapp_messages sample_env sample_twilio guest_repr [ana, bruno]
            (py ''Oi'')) =
     \<lparr>total = 2, successful = 1, failed = 1,
      results = [\<lparr>entry_phone = ana, entry_success = True, entry_error = None\<rparr>,
                 \<lparr>entry_phone = bruno, entry_success = False,
                  entry_error = Some (py ''Unable to create record'')\<rparr>]\<rparr>"
    by (simp add: evaluate)
  have second: "fst (snd (fst (send_whatsapp sample_env sample_twilio 0 admin_session
                      send_template_form sample_state))) =
     [(Warning, GuestsWithoutPhone [py ''Carla Souza'']),
      (Danger, GeneralSendError TypeError)]
   \<and> snd (send_whatsapp sample_env sample_twilio 0 admin_session send_template_form
            sample_state) = []"
    by (simp add: evaluate send_template_form_def)
  from first bulk second show ?thesis by simp
qed

end
